theory Spec2Isabelle
  imports Complex_Main
begin

section \<open>JSON values, mappings and Python exceptions\<close>

text \<open>
  The engine of \<^verbatim>\<open>jsonschema_gentypes/__init__.py\<close> walks a JSON Schema document held as
  Python objects. A mapping (\<^verbatim>\<open>dict\<close>) is a mutable object: the source updates mappings
  in place and shares them between a schema and its shallow copies, so a mapping value is
  an address into a store of mappings. Lists of the document are never written by the
  source and are plain values. A \<^verbatim>\<open>float\<close> is represented by the rational number it
  denotes (NaN and the infinities are not represented). A \<^verbatim>\<open>str\<close> is a \<open>string\<close>: one
  \<open>char\<close> per code point, code points up to 255.
\<close>

type_synonym addr = nat

datatype val =
    VNone
  | VBool bool
  | VInt int
  | VFloat rat
  | VStr string
  | VList "val list"
  | VDict addr

text \<open>A mapping keeps its keys in insertion order, as Python's \<^verbatim>\<open>dict\<close> does.\<close>

type_synonym pydict = "(string \<times> val) list"

text \<open>
  The exceptions the source raises or meets. \<open>RecursionError\<close> is what the interpreter
  raises when the recursion of \<^verbatim>\<open>get_type\<close> exceeds its depth limit,
  \<open>RuntimeError\<close> what it raises when a mapping changes size while it is iterated. \<open>RefResolutionError\<close>
  is the resolver's. \<open>IllTyped\<close> is not an exception of the source: it marks the places
  where a value lies outside the type that \<^verbatim>\<open>jsonschema.JSONSchemaItem\<close> declares for its
  key and the source would carry on with an object this model does not represent (a
  description that is not a string, the text of a list inside an f-string). No statement
  below is about such inputs.
\<close>

datatype pyerror =
    AssertionError
  | AttributeError
  | IndexError
  | KeyError
  | NotImplementedError
  | TypeError
  | RecursionError
  | RuntimeError
  | RefResolutionError
  | IllTyped

subsection \<open>Operations of \<^verbatim>\<open>dict\<close>\<close>

definition dict_get :: "pydict \<Rightarrow> string \<Rightarrow> val option" where
  "dict_get d k = map_of d k"

definition dict_contains :: "pydict \<Rightarrow> string \<Rightarrow> bool" where
  "dict_contains d k = (k \<in> set (map fst d))"

text \<open>\<^verbatim>\<open>d[k] = v\<close>: an existing key keeps its position, a new key goes last.\<close>

fun dict_set :: "('k \<times> 'v) list \<Rightarrow> 'k \<Rightarrow> 'v \<Rightarrow> ('k \<times> 'v) list" where
  "dict_set [] k v = [(k, v)]"
| "dict_set ((k', v') # d) k v = (if k' = k then (k, v) # d else (k', v') # dict_set d k v)"

text \<open>\<^verbatim>\<open>del d[k]\<close>, used by the source only under \<^verbatim>\<open>if k in d\<close>.\<close>

definition dict_del :: "pydict \<Rightarrow> string \<Rightarrow> pydict" where
  "dict_del d k = filter (\<lambda>kv. fst kv \<noteq> k) d"

text \<open>\<^verbatim>\<open>d.update(other)\<close> for a mapping \<^verbatim>\<open>other\<close>.\<close>

definition dict_update :: "pydict \<Rightarrow> pydict \<Rightarrow> pydict" where
  "dict_update d other = foldl (\<lambda>acc kv. dict_set acc (fst kv) (snd kv)) d other"

subsection \<open>Text of scalars\<close>

definition digit_char :: "nat \<Rightarrow> char" where
  "digit_char n = char_of (48 + n)"

fun str_nat :: "nat \<Rightarrow> string" where
  "str_nat n = (if n < 10 then [digit_char n] else str_nat (n div 10) @ [digit_char (n mod 10)])"

declare str_nat.simps [simp del]

definition str_int :: "int \<Rightarrow> string" where
  "str_int i = (if i < 0 then CHR ''-'' # str_nat (nat (- i)) else str_nat (nat i))"

text \<open>
  \<^verbatim>\<open>str(value)\<close> and \<^verbatim>\<open>f"{value}"\<close> for a scalar. The text of a float is Python's own
  algorithm (the shortest decimal that reads back) and is taken as a parameter.
\<close>

definition py_str :: "(rat \<Rightarrow> string) \<Rightarrow> val \<Rightarrow> pyerror + string" where
  "py_str float_str v =
     (case v of
        VNone \<Rightarrow> Inr ''None''
      | VBool b \<Rightarrow> Inr (if b then ''True'' else ''False'')
      | VInt i \<Rightarrow> Inr (str_int i)
      | VFloat q \<Rightarrow> Inr (float_str q)
      | VStr s \<Rightarrow> Inr s
      | VList xs \<Rightarrow> Inl IllTyped
      | VDict a \<Rightarrow> Inl IllTyped)"

section \<open>Name synthesis\<close>

text \<open>
  \<^verbatim>\<open>unidecode\<close> is the transliteration library the source imports. It keeps every ASCII
  character and replaces any other character by the ASCII text its table gives; the table
  is the library's and is a parameter here.
\<close>

definition unidecode :: "(char \<Rightarrow> string) \<Rightarrow> string \<Rightarrow> string" where
  "unidecode table s = concat (map (\<lambda>c. if (of_char c :: nat) < 128 then [c] else table c) s)"

definition char_range :: "char \<Rightarrow> char \<Rightarrow> char list" where
  "char_range char1 char2 = map char_of [of_char char1 ..< (of_char char2 :: nat) + 1]"

definition authorised_char :: "char list" where
  "authorised_char =
     char_range CHR ''a'' CHR ''z'' @ char_range CHR ''A'' CHR ''Z'' @ char_range CHR ''0'' CHR ''9''"

definition is_lower :: "char \<Rightarrow> bool" where
  "is_lower c = (c \<in> set (char_range CHR ''a'' CHR ''z''))"

definition is_upper :: "char \<Rightarrow> bool" where
  "is_upper c = (c \<in> set (char_range CHR ''A'' CHR ''Z''))"

definition to_lower :: "char \<Rightarrow> char" where
  "to_lower c = (if is_upper c then char_of ((of_char c :: nat) + 32) else c)"

definition to_upper :: "char \<Rightarrow> char" where
  "to_upper c = (if is_lower c then char_of ((of_char c :: nat) - 32) else c)"

text \<open>
  \<^verbatim>\<open>str.lower\<close>, \<^verbatim>\<open>str.upper\<close>, \<^verbatim>\<open>str.title\<close> and \<^verbatim>\<open>str.isspace\<close>. The source
  applies them after it has replaced every character outside \<open>authorised_char\<close> by a
  space, so only ASCII letters, digits and spaces reach them.
\<close>

definition lower :: "string \<Rightarrow> string" where
  "lower s = map to_lower s"

definition upper :: "string \<Rightarrow> string" where
  "upper s = map to_upper s"

fun title_from :: "bool \<Rightarrow> string \<Rightarrow> string" where
  "title_from previous_is_cased [] = []"
| "title_from previous_is_cased (c # cs) =
     (if is_lower c then (if previous_is_cased then c else to_upper c) # title_from True cs
      else if is_upper c then (if previous_is_cased then to_lower c else c) # title_from True cs
      else c # title_from False cs)"

definition title :: "string \<Rightarrow> string" where
  "title s = title_from False s"

definition isspace :: "char \<Rightarrow> bool" where
  "isspace c = (c \<in> set [CHR 0x09, CHR 0x0A, CHR 0x0B, CHR 0x0C, CHR 0x0D, CHR 0x1C, CHR 0x1D,
                         CHR 0x1E, CHR 0x1F, CHR 0x20, CHR 0x85, CHR 0xA0])"

definition python_keywords :: "string list" where
  "python_keywords =
     [''and'', ''as'', ''assert'', ''break'', ''class'', ''continue'', ''def'', ''del'', ''elif'',
      ''else'', ''except'', ''false'', ''finally'', ''for'', ''from'', ''global'', ''if'', ''import'',
      ''in'', ''is'', ''lambda'', ''none'', ''nonlocal'', ''not'', ''or'', ''pass'', ''raise'',
      ''return'', ''true'', ''try'', ''while'', ''with'', ''yield'']"

text \<open>
  \<^verbatim>\<open>get_name(schema, proposed_name=None, upper=False)\<close>. The schema is \<open>None\<close> or the
  content of a mapping; the proposed name is \<open>VNone\<close> when the caller gives none. First
  the base name: the title when the schema is a mapping with a title, else the proposed
  name.
\<close>

definition has_title :: "pydict option \<Rightarrow> bool" where
  "has_title schema = (case schema of None \<Rightarrow> False | Some d \<Rightarrow> dict_contains d ''title'')"

definition base_name :: "pydict option \<Rightarrow> val \<Rightarrow> val" where
  "base_name schema proposed_name =
     (if has_title schema then the (dict_get (the schema) ''title'') else proposed_name)"

text \<open>
  Then the cleaning. \<^verbatim>\<open>name[0]\<close> raises \<^verbatim>\<open>IndexError\<close> on the empty string. The library
  call \<^verbatim>\<open>unidecode(name)\<close> on a name that is not a string is \<open>IllTyped\<close>.
\<close>

definition get_name :: "(char \<Rightarrow> string) \<Rightarrow> pydict option \<Rightarrow> val \<Rightarrow> bool \<Rightarrow> pyerror + string" where
  "get_name table schema proposed_name upper_case =
     (case base_name schema proposed_name of
        VNone \<Rightarrow> Inl AssertionError
      | VStr name0 \<Rightarrow>
          (let name1 = unidecode table name0;
               name2 = map (\<lambda>c. if c \<in> set authorised_char then c else CHR '' '') name1
           in if name2 = [] then Inl IndexError
              else
                (let name3 = (if hd name2 \<in> set (char_range CHR ''0'' CHR ''9'')
                              then ''num '' @ name2 else name2);
                     name4 = (if lower name3 \<in> set python_keywords
                              then name3 @ '' name'' else name3);
                     prefix = (if has_title schema then [] else ''_'')
                 in if upper_case
                    then Inr (prefix @ map (\<lambda>c. if isspace c then CHR ''_'' else c) (upper name4))
                    else Inr (prefix @ filter (\<lambda>c. \<not> isspace c) (title name4))))
      | _ \<Rightarrow> Inl IllTyped)"


section \<open>Description synthesis\<close>

definition consumed_keys :: "string list" where
  "consumed_keys =
     [''title'', ''description'', ''$ref'', ''$schema'', ''$id'', ''const'', ''type'', ''items'',
      ''additionalProperties'']"

text \<open>The first loop of \<^verbatim>\<open>get_description\<close>, over the keys \<^verbatim>\<open>("title", "description")\<close>.\<close>

fun description_head :: "pydict \<Rightarrow> string list \<Rightarrow> string list \<Rightarrow> pyerror + string list" where
  "description_head schema [] result = Inr result"
| "description_head schema (key # keys) result =
     (if dict_contains schema key
      then (case dict_get schema key of
              Some (VStr s) \<Rightarrow>
                description_head schema keys ((if result \<noteq> [] then result @ [[]] else result) @ [s])
            | _ \<Rightarrow> Inl IllTyped)
      else description_head schema keys result)"

definition is_list_or_dict :: "val \<Rightarrow> bool" where
  "is_list_or_dict v = (case v of VList xs \<Rightarrow> True | VDict a \<Rightarrow> True | _ \<Rightarrow> False)"

text \<open>The second loop, over \<^verbatim>\<open>schema.items()\<close>, with the flag \<^verbatim>\<open>first\<close>.\<close>

fun description_items ::
  "(rat \<Rightarrow> string) \<Rightarrow> pydict \<Rightarrow> bool \<Rightarrow> string list \<Rightarrow> pyerror + string list" where
  "description_items float_str [] first result = Inr result"
| "description_items float_str ((key, value) # items) first result =
     (if key \<notin> set consumed_keys \<and> \<not> is_list_or_dict value
      then (case py_str float_str value of
              Inl err \<Rightarrow> Inl err
            | Inr text \<Rightarrow>
                description_items float_str items False
                  ((if first \<and> result \<noteq> [] then result @ [[]] else result) @ [key @ '': '' @ text]))
      else description_items float_str items first result)"

definition get_description :: "(rat \<Rightarrow> string) \<Rightarrow> pydict \<Rightarrow> pyerror + string list" where
  "get_description float_str schema =
     (case description_head schema [''title'', ''description''] [] of
        Inl err \<Rightarrow> Inl err
      | Inr result \<Rightarrow> description_items float_str schema True result)"

section \<open>Type IR\<close>

text \<open>
  The classes of the Type hierarchy. A Type object is mutable (its comments are set after
  construction) and is shared between use sites by the reference cache, so a Type is an
  address into a store of Type objects, and the fields that hold Types hold addresses.
  \<^verbatim>\<open>NamedType\<close> itself is never instantiated.
\<close>

datatype pytype =
    LiteralType val
  | BuiltinType string
  | NativeType string string
  | CombinedType addr "addr list"
  | TypeAlias string addr "string list"
  | TypeEnum string "val list" "string list"
  | TypedDictType string "(string \<times> addr) list" "string list"

record pyobject =
  instance_of :: pytype
  u_comments :: "string list option"

text \<open>\<^verbatim>\<open>isinstance(the_type, NamedType)\<close>\<close>

definition is_NamedType :: "pytype \<Rightarrow> bool" where
  "is_NamedType t =
     (case t of TypeAlias n s ds \<Rightarrow> True | TypeEnum n vs ds \<Rightarrow> True | TypedDictType n fs ds \<Rightarrow> True
      | _ \<Rightarrow> False)"

subsection \<open>\<^verbatim>\<open>TypeEnum.definition\<close>\<close>

text \<open>
  The identifier of the member generated for one value:
  \<^verbatim>\<open>get_name({"title": value}, upper=True)\<close> for a string,
  \<^verbatim>\<open>get_name({"title": str(value)}, upper=True)\<close> otherwise.
\<close>

definition member_name :: "(char \<Rightarrow> string) \<Rightarrow> (rat \<Rightarrow> string) \<Rightarrow> val \<Rightarrow> pyerror + string" where
  "member_name table float_str value =
     (case py_str float_str value of
        Inl err \<Rightarrow> Inl err
      | Inr text \<Rightarrow> get_name table (Some [(''title'', VStr text)]) VNone True)"

text \<open>The line of one member; a string value is written between double quotes.\<close>

definition member_line :: "(char \<Rightarrow> string) \<Rightarrow> (rat \<Rightarrow> string) \<Rightarrow> val \<Rightarrow> pyerror + string" where
  "member_line table float_str value =
     (case member_name table float_str value of
        Inl err \<Rightarrow> Inl err
      | Inr ident \<Rightarrow>
          (case value of
             VStr s \<Rightarrow> Inr (''    '' @ ident @ '' = '' @ [CHR 0x22] @ s @ [CHR 0x22])
           | _ \<Rightarrow> (case py_str float_str value of
                     Inl err \<Rightarrow> Inl err
                   | Inr text \<Rightarrow> Inr (''    '' @ ident @ '' = '' @ text))))"

text \<open>The loop \<^verbatim>\<open>for value in self.values\<close>: it stops at the first value that raises.\<close>

fun member_lines :: "(char \<Rightarrow> string) \<Rightarrow> (rat \<Rightarrow> string) \<Rightarrow> val list \<Rightarrow> pyerror + string list" where
  "member_lines table float_str [] = Inr []"
| "member_lines table float_str (value # values) =
     (case member_line table float_str value of
        Inl err \<Rightarrow> Inl err
      | Inr line \<Rightarrow>
          (case member_lines table float_str values of
             Inl err \<Rightarrow> Inl err
           | Inr lines \<Rightarrow> Inr (line # lines)))"

definition TypeEnum_definition ::
  "(char \<Rightarrow> string) \<Rightarrow> (rat \<Rightarrow> string) \<Rightarrow> string \<Rightarrow> val list \<Rightarrow> string list \<Rightarrow> pyerror + string list" where
  "TypeEnum_definition table float_str name values descriptions =
     (case member_lines table float_str values of
        Inl err \<Rightarrow> Inl err
      | Inr lines \<Rightarrow>
          Inr ([[], []] @ map (\<lambda>d. ''# '' @ d) descriptions @ [''class '' @ name @ ''(Enum):''] @ lines))"


section \<open>The engine's state\<close>

text \<open>
  What does not change during a translation: the two library functions above, the
  resolver's lookup, whether the resolver object has a \<^verbatim>\<open>resolve\<close> attribute
  (\<^verbatim>\<open>getattr(self.resolver, "resolve", None)\<close>), and the engine's
  \<^verbatim>\<open>additional_properties\<close> policy. The resolver is the collaborator
  \<^verbatim>\<open>jsonschema.RefResolver\<close>: \<^verbatim>\<open>resolve(ref)\<close> joins the reference with the scope on top
  of its stack and returns the joined URL and the object found there, or fails; it is a
  function of the scope stack and the reference.
\<close>

datatype AdditionalProperties = ALWAYS | ONLY_EXPLICIT

record env =
  unidecode_table :: "char \<Rightarrow> string"
  float_str :: "rat \<Rightarrow> string"
  resolver_resolve :: "val list \<Rightarrow> string \<Rightarrow> pyerror + (string \<times> val)"
  resolver_has_resolve :: bool
  additional_properties :: AdditionalProperties

text \<open>
  What changes: the store of mappings (the documents and every mapping the engine builds),
  the store of Type objects, the resolver's scope stack (\<^verbatim>\<open>push_scope\<close> appends,
  \<^verbatim>\<open>pop_scope\<close> removes the last) and the engine's cache \<^verbatim>\<open>self.ref_type\<close>.
\<close>

record state =
  dicts :: "pydict list"
  types :: "pyobject list"
  scopes_stack :: "val list"
  ref_type :: "(string \<times> addr) list"

text \<open>
  A call returns a value or raises, and in both cases leaves a state behind: what was
  written before an exception stays written.
\<close>

type_synonym 'a result = "(pyerror + 'a) \<times> state"

type_synonym 'a action = "state \<Rightarrow> 'a result"

definition return :: "'a \<Rightarrow> 'a action" where
  "return x st = (Inr x, st)"

definition raise :: "pyerror \<Rightarrow> 'a action" where
  "raise err st = (Inl err, st)"

definition lift :: "pyerror + 'a \<Rightarrow> 'a action" where
  "lift r st = (r, st)"

definition and_then :: "'a action \<Rightarrow> ('a \<Rightarrow> 'b action) \<Rightarrow> 'b action" where
  "and_then m f st = (case m st of (Inl err, st') \<Rightarrow> (Inl err, st') | (Inr x, st') \<Rightarrow> f x st')"

text \<open>
  \<^verbatim>\<open>try: body finally: cleanup\<close>: the cleanup runs on both paths; an exception of the
  cleanup replaces the outcome of the body.
\<close>

definition try_finally :: "'a action \<Rightarrow> unit action \<Rightarrow> 'a action" where
  "try_finally body cleanup st =
     (case body st of
        (r, st') \<Rightarrow> (case cleanup st' of (Inl err, st'') \<Rightarrow> (Inl err, st'') | (Inr u, st'') \<Rightarrow> (r, st'')))"

text \<open>A loop that collects the results of its body, in order, and stops at the first exception.\<close>

fun for_each :: "('a \<Rightarrow> 'b action) \<Rightarrow> 'a list \<Rightarrow> 'b list action" where
  "for_each body [] = return []"
| "for_each body (x # xs) =
     and_then (body x) (\<lambda>y. and_then (for_each body xs) (\<lambda>ys. return (y # ys)))"

subsection \<open>The store of mappings\<close>

text \<open>
  Python has no dangling reference; the lookup of an address that was never allocated
  cannot be written in the source and yields the empty mapping here.
\<close>

definition dict_at :: "state \<Rightarrow> addr \<Rightarrow> pydict" where
  "dict_at st a = (if a < length (dicts st) then dicts st ! a else [])"

definition read_dict :: "addr \<Rightarrow> pydict action" where
  "read_dict a st = (Inr (dict_at st a), st)"

definition new_dict :: "pydict \<Rightarrow> addr action" where
  "new_dict d st = (Inr (length (dicts st)), st\<lparr>dicts := dicts st @ [d]\<rparr>)"

definition write_dict :: "addr \<Rightarrow> pydict \<Rightarrow> unit action" where
  "write_dict a d st = (Inr (), st\<lparr>dicts := (dicts st)[a := d]\<rparr>)"

text \<open>
  \<^verbatim>\<open>target.update(other)\<close> on the mapping at \<open>target\<close>. An argument that is not iterable
  raises \<^verbatim>\<open>TypeError\<close>; a string or a list argument is outside the model.
\<close>

definition update_dict :: "addr \<Rightarrow> val \<Rightarrow> unit action" where
  "update_dict target other =
     (case other of
        VDict b \<Rightarrow>
          and_then (read_dict target) (\<lambda>d.
          and_then (read_dict b) (\<lambda>d'. write_dict target (dict_update d d')))
      | VStr s \<Rightarrow> raise IllTyped
      | VList xs \<Rightarrow> raise IllTyped
      | _ \<Rightarrow> raise TypeError)"

text \<open>\<^verbatim>\<open>schema.get(key, {})\<close>: the default mapping is built before the call.\<close>

definition get_or_new_dict :: "pydict \<Rightarrow> string \<Rightarrow> val action" where
  "get_or_new_dict d key =
     and_then (new_dict []) (\<lambda>fresh.
       return (case dict_get d key of None \<Rightarrow> VDict fresh | Some v \<Rightarrow> v))"

definition get_default :: "pydict \<Rightarrow> string \<Rightarrow> val \<Rightarrow> val" where
  "get_default d key other = (case dict_get d key of None \<Rightarrow> other | Some v \<Rightarrow> v)"

text \<open>The truth value of an object, as \<^verbatim>\<open>if scope:\<close>, \<^verbatim>\<open>if properties:\<close> and \<^verbatim>\<open>assert\<close> read it.\<close>

definition truthy :: "state \<Rightarrow> val \<Rightarrow> bool" where
  "truthy st v =
     (case v of
        VNone \<Rightarrow> False
      | VBool b \<Rightarrow> b
      | VInt i \<Rightarrow> i \<noteq> 0
      | VFloat q \<Rightarrow> q \<noteq> 0
      | VStr s \<Rightarrow> s \<noteq> []
      | VList xs \<Rightarrow> xs \<noteq> []
      | VDict a \<Rightarrow> dict_at st a \<noteq> [])"

definition is_truthy :: "val \<Rightarrow> bool action" where
  "is_truthy v st = (Inr (truthy st v), st)"

text \<open>
  \<^verbatim>\<open>for prop, subschema in properties.items()\<close> with a body that may write mappings: each
  step of the iterator, the last one included, raises \<^verbatim>\<open>RuntimeError\<close> when the mapping no
  longer has the size it had when the loop began. The source never removes a key of a
  shared mapping, so an unchanged size means the same keys in the same order.
\<close>

fun for_items :: "addr \<Rightarrow> nat \<Rightarrow> (string \<times> val \<Rightarrow> 'b action) \<Rightarrow> nat list \<Rightarrow> 'b list action" where
  "for_items p n body [] =
     and_then (read_dict p) (\<lambda>d. if length d \<noteq> n then raise RuntimeError else return [])"
| "for_items p n body (i # rest) =
     and_then (read_dict p) (\<lambda>d.
       if length d \<noteq> n then raise RuntimeError
       else and_then (body (d ! i)) (\<lambda>y.
            and_then (for_items p n body rest) (\<lambda>ys. return (y # ys))))"

subsection \<open>The store of Type objects\<close>

definition type_at :: "state \<Rightarrow> addr \<Rightarrow> pyobject" where
  "type_at st t =
     (if t < length (types st) then types st ! t
      else \<lparr>instance_of = BuiltinType [], u_comments = None\<rparr>)"

text \<open>A constructor call: the new object has no comments of its own yet.\<close>

definition new_type :: "pytype \<Rightarrow> addr action" where
  "new_type t st =
     (Inr (length (types st)), st\<lparr>types := types st @ [\<lparr>instance_of = t, u_comments = None\<rparr>]\<rparr>)"

definition set_comments :: "addr \<Rightarrow> string list \<Rightarrow> unit action" where
  "set_comments t cs st =
     (Inr (), st\<lparr>types := (types st)[t := (type_at st t)\<lparr>u_comments := Some cs\<rparr>]\<rparr>)"

text \<open>\<^verbatim>\<open>Type.comments\<close>: it installs an empty list when there is none.\<close>

definition comments :: "addr \<Rightarrow> string list action" where
  "comments t st =
     (case u_comments (type_at st t) of
        None \<Rightarrow> (Inr [], st\<lparr>types := (types st)[t := (type_at st t)\<lparr>u_comments := Some []\<rparr>]\<rparr>)
      | Some cs \<Rightarrow> (Inr cs, st))"

definition isinstance_NamedType :: "addr \<Rightarrow> bool action" where
  "isinstance_NamedType t st = (Inr (is_NamedType (instance_of (type_at st t))), st)"

subsection \<open>The resolver's scope stack\<close>

definition push_scope :: "val \<Rightarrow> unit action" where
  "push_scope scope st = (Inr (), st\<lparr>scopes_stack := scopes_stack st @ [scope]\<rparr>)"

definition pop_scope :: "unit action" where
  "pop_scope st =
     (if scopes_stack st = [] then (Inl RefResolutionError, st)
      else (Inr (), st\<lparr>scopes_stack := butlast (scopes_stack st)\<rparr>))"

definition resolve :: "env \<Rightarrow> string \<Rightarrow> (string \<times> val) action" where
  "resolve e ref st = (resolver_resolve e (scopes_stack st) ref, st)"

text \<open>
  The context manager \<^verbatim>\<open>resolver.resolving(ref)\<close> of the library: it resolves, pushes the
  URL, runs the body on the resolved object and pops on every exit of the body.
\<close>

definition resolving :: "env \<Rightarrow> string \<Rightarrow> (val \<Rightarrow> 'a action) \<Rightarrow> 'a action" where
  "resolving e ref body =
     and_then (resolve e ref) (\<lambda>found.
     and_then (push_scope (VStr (fst found))) (\<lambda>u.
       try_finally (body (snd found)) pop_scope))"

subsection \<open>Strings built from the proposed name\<close>

text \<open>\<^verbatim>\<open>proposed_name + suffix\<close>: only a string can be added to a string.\<close>

definition add_str :: "val \<Rightarrow> string \<Rightarrow> pyerror + val" where
  "add_str name suffix = (case name of VStr s \<Rightarrow> Inr (VStr (s @ suffix)) | _ \<Rightarrow> Inl TypeError)"

text \<open>\<^verbatim>\<open>f"{proposed_name} {x}"\<close> and \<^verbatim>\<open>f"{proposed_name} allof{index}"\<close>\<close>

definition format2 :: "(rat \<Rightarrow> string) \<Rightarrow> val \<Rightarrow> string \<Rightarrow> val \<Rightarrow> pyerror + val" where
  "format2 fs x sep y =
     (case py_str fs x of
        Inl err \<Rightarrow> Inl err
      | Inr s \<Rightarrow> (case py_str fs y of Inl err \<Rightarrow> Inl err | Inr s' \<Rightarrow> Inr (VStr (s @ sep @ s'))))"


section \<open>The translation engine\<close>

text \<open>
  The methods of \<^verbatim>\<open>API\<close> and \<^verbatim>\<open>APIv4\<close> (\<^verbatim>\<open>APIv6\<close> and \<^verbatim>\<open>APIv7\<close> inherit them unchanged).
  A method \<^verbatim>\<open>C.m\<close> is the constant \<open>C_m\<close>, so \<^verbatim>\<open>API._get_type\<close> is \<open>API__get_type\<close>.
  The methods call each other through \<^verbatim>\<open>self.get_type\<close>; here that callee is the
  parameter \<open>gt\<close> (schema, proposed name, \<^verbatim>\<open>auto_alias\<close>), and \<open>API_get_type\<close> at the end
  ties the knot. A schema argument that the source uses as a mapping is its address.
\<close>

subsection \<open>Handlers without recursion\<close>

definition APIv4_const :: "addr \<Rightarrow> val \<Rightarrow> addr action" where
  "APIv4_const schema proposed_name =
     and_then (read_dict schema) (\<lambda>d.
       case dict_get d ''const'' of
         None \<Rightarrow> raise KeyError
       | Some const_v \<Rightarrow> new_type (LiteralType const_v))"

text \<open>
  \<^verbatim>\<open>TypeEnum(get_name(schema, proposed_name), schema["enum"], get_description(schema))\<close>,
  the arguments evaluated from left to right, then the constructor's
  \<^verbatim>\<open>assert len(values) > 0\<close>.
\<close>

definition APIv4_enum :: "env \<Rightarrow> addr \<Rightarrow> val \<Rightarrow> addr action" where
  "APIv4_enum e schema proposed_name =
     and_then (read_dict schema) (\<lambda>d.
     and_then (lift (get_name (unidecode_table e) (Some d) proposed_name False)) (\<lambda>name.
       case dict_get d ''enum'' of
         None \<Rightarrow> raise KeyError
       | Some values \<Rightarrow>
           and_then (lift (get_description (float_str e) d)) (\<lambda>descriptions.
             case values of
               VList vs \<Rightarrow>
                 if vs = [] then raise AssertionError
                 else new_type (TypeEnum name vs descriptions)
             | VStr s \<Rightarrow> raise IllTyped
             | VDict b \<Rightarrow> raise IllTyped
             | _ \<Rightarrow> raise TypeError)))"

definition APIv4_boolean :: "addr \<Rightarrow> val \<Rightarrow> addr action" where
  "APIv4_boolean schema proposed_name = new_type (BuiltinType ''bool'')"

definition APIv4_string :: "addr \<Rightarrow> val \<Rightarrow> addr action" where
  "APIv4_string schema proposed_name = new_type (BuiltinType ''str'')"

definition APIv4_number :: "addr \<Rightarrow> val \<Rightarrow> addr action" where
  "APIv4_number schema proposed_name =
     and_then (new_type (NativeType ''Union'' ''typing'')) (\<lambda>base.
     and_then (new_type (BuiltinType ''int'')) (\<lambda>t1.
     and_then (new_type (BuiltinType ''float'')) (\<lambda>t2.
       new_type (CombinedType base [t1, t2]))))"

definition APIv4_integer :: "addr \<Rightarrow> val \<Rightarrow> addr action" where
  "APIv4_integer schema proposed_name = new_type (BuiltinType ''int'')"

definition APIv4_null :: "addr \<Rightarrow> val \<Rightarrow> addr action" where
  "APIv4_null schema proposed_name = new_type (BuiltinType ''None'')"

text \<open>
  The loop over \<^verbatim>\<open>(str, "str"), (int, "int"), (float, "float"), (bool, "bool")\<close> keeps the
  last match; a \<^verbatim>\<open>bool\<close> is also an \<^verbatim>\<open>int\<close>.
\<close>

definition APIv4_default :: "addr \<Rightarrow> val \<Rightarrow> addr action" where
  "APIv4_default schema proposed_name =
     and_then (read_dict schema) (\<lambda>d.
       case dict_get d ''default'' of
         None \<Rightarrow> raise KeyError
       | Some v \<Rightarrow>
           and_then (new_type (BuiltinType
                      (case v of VStr s \<Rightarrow> ''str'' | VInt i \<Rightarrow> ''int'' | VFloat q \<Rightarrow> ''float''
                       | VBool b \<Rightarrow> ''bool'' | _ \<Rightarrow> ''Any''))) (\<lambda>the_type.
           and_then (set_comments the_type
                      [''WARNING: `default` keyword not supported.'',
                       ''See: https://github.com/python/mypy/issues/6131'']) (\<lambda>u.
             return the_type)))"

subsection \<open>\<^verbatim>\<open>APIv4.object\<close>\<close>

text \<open>\<^verbatim>\<open>CombinedType(NativeType("Dict"), [BuiltinType("str"), NativeType("Any")])\<close>\<close>

definition dict_str_any :: "addr action" where
  "dict_str_any =
     and_then (new_type (NativeType ''Dict'' ''typing'')) (\<lambda>base.
     and_then (new_type (BuiltinType ''str'')) (\<lambda>k.
     and_then (new_type (NativeType ''Any'' ''typing'')) (\<lambda>v.
       new_type (CombinedType base [k, v]))))"

text \<open>
  \<^verbatim>\<open>set(schema.get("required", []))\<close>: the elements of a list (all of them hashable), the
  characters of a string, the keys of a mapping.
\<close>

definition set_of :: "val \<Rightarrow> val list action" where
  "set_of v =
     (case v of
        VList xs \<Rightarrow> if list_ex is_list_or_dict xs then raise TypeError else return xs
      | VStr s \<Rightarrow> return (map (\<lambda>c. VStr [c]) s)
      | VDict b \<Rightarrow> and_then (read_dict b) (\<lambda>d. return (map (\<lambda>kv. VStr (fst kv)) d))
      | _ \<Rightarrow> raise TypeError)"

text \<open>The local function \<^verbatim>\<open>add_required\<close>: it appends to the Type's own comment list.\<close>

definition add_required :: "addr \<Rightarrow> string \<Rightarrow> val list \<Rightarrow> addr action" where
  "add_required type_obj prop required =
     (if VStr prop \<in> set required
      then and_then (comments type_obj) (\<lambda>cs.
           and_then (set_comments type_obj ((if cs \<noteq> [] then cs @ [[]] else cs) @ [''required''])) (\<lambda>u.
             return type_obj))
      else return type_obj)"

definition APIv4_object ::
  "(val \<Rightarrow> val \<Rightarrow> bool \<Rightarrow> addr action) \<Rightarrow> env \<Rightarrow> addr \<Rightarrow> val \<Rightarrow> addr action" where
  "APIv4_object gt e schema proposed_name0 =
     and_then (read_dict schema) (\<lambda>d.
     and_then (lift (get_name (unidecode_table e) (Some d) proposed_name0 False)) (\<lambda>name.
     and_then
       (case dict_get d ''additionalProperties'' of
          Some (VBool True) \<Rightarrow>
            if additional_properties e = ALWAYS
            then and_then dict_str_any (\<lambda>t. return (Some t))
            else return None
        | Some (VDict ap) \<Rightarrow>
            and_then (lift (format2 (float_str e) proposed_name0 '' additionalProperties'' (VStr []))) (\<lambda>n.
            and_then (gt (VDict ap) n True) (\<lambda>sub_type.
            and_then (new_type (NativeType ''Dict'' ''typing'')) (\<lambda>base.
            and_then (new_type (BuiltinType ''str'')) (\<lambda>k.
            and_then (new_type (CombinedType base [k, sub_type])) (\<lambda>t.
              return (Some t))))))
        | _ \<Rightarrow> return None) (\<lambda>std_dict.
     and_then (read_dict schema) (\<lambda>d1.
     and_then (is_truthy (get_default d1 ''properties'' VNone)) (\<lambda>has_properties.
       if has_properties
       then
         and_then (set_of (get_default d1 ''required'' (VList []))) (\<lambda>required.
           case get_default d1 ''properties'' VNone of
             VDict p \<Rightarrow>
               and_then (read_dict p) (\<lambda>items.
               and_then (for_items p (length items)
                          (\<lambda>(prop, subschema).
                             and_then (lift (add_str (get_default d1 ''title'' proposed_name0) ('' '' @ prop))) (\<lambda>n.
                             and_then (gt subschema n False) (\<lambda>t.
                             and_then (add_required t prop required) (\<lambda>t'.
                               return (prop, t')))))
                          [0 ..< length items]) (\<lambda>struct.
               and_then (read_dict schema) (\<lambda>d2.
               and_then (lift (if std_dict = None then get_description (float_str e) d2 else Inr [])) (\<lambda>descriptions.
               and_then (new_type (TypedDictType (if std_dict = None then name else name @ ''Typed'')
                                     struct descriptions)) (\<lambda>typed.
                 case std_dict of
                   None \<Rightarrow>
                     and_then (set_comments typed
                                [''WARNING: The required are not correctly taken in account,'',
                                 ''See: https://www.python.org/dev/peps/pep-0655/'']) (\<lambda>u.
                       return typed)
                 | Some sd \<Rightarrow>
                     and_then (new_type (NativeType ''Union'' ''typing'')) (\<lambda>base.
                     and_then (new_type (CombinedType base [sd, typed])) (\<lambda>both.
                     and_then (set_comments both
                                [''WARNING: The required are not correctly taken in account,'',
                                 ''See: https://www.python.org/dev/peps/pep-0655/'',
                                 [],
                                 ''WARNING: the Normally the types should be mised each other instead of Union.'',
                                 ''See: https://github.com/python/mypy/issues/6131'']) (\<lambda>u.
                       return both))))))))
           | _ \<Rightarrow> raise AttributeError)
       else
         (case std_dict of
            Some sd \<Rightarrow> return sd
          | None \<Rightarrow> dict_str_any))))))"

subsection \<open>\<^verbatim>\<open>APIv4.array\<close>\<close>

text \<open>Python's \<^verbatim>\<open>==\<close> between a value and an \<^verbatim>\<open>int\<close>: \<^verbatim>\<open>True == 1\<close> and \<^verbatim>\<open>3.0 == 3\<close>.\<close>

definition eq_int :: "val \<Rightarrow> int \<Rightarrow> bool" where
  "eq_int v n =
     (case v of
        VInt i \<Rightarrow> i = n
      | VBool b \<Rightarrow> (if b then 1 else 0) = n
      | VFloat q \<Rightarrow> q = of_int n
      | _ \<Rightarrow> False)"

definition differs :: "val \<Rightarrow> nat \<Rightarrow> bool" where
  "differs v n = (v \<noteq> VNone \<and> \<not> eq_int v (int n))"

text \<open>
  The truth value of \<^verbatim>\<open>{schema.get("minItems"), schema.get("maxItems")} - {None, len(items)}\<close>;
  building the first set raises \<^verbatim>\<open>TypeError\<close> on a list or a mapping.
\<close>

definition arity_not_pinned :: "val \<Rightarrow> val \<Rightarrow> nat \<Rightarrow> pyerror + bool" where
  "arity_not_pinned min_items max_items n =
     (if is_list_or_dict min_items \<or> is_list_or_dict max_items then Inl TypeError
      else Inr (differs min_items n \<or> differs max_items n))"

definition tuple_warning :: "string list" where
  "tuple_warning =
     [''WARNING: 'items': If list, must have minItems == maxItems.'',
      ''See: https://json-schema.org/understanding-json-schema/reference/array.html#tuple-validation'']"

definition APIv4_array ::
  "(val \<Rightarrow> val \<Rightarrow> bool \<Rightarrow> addr action) \<Rightarrow> env \<Rightarrow> addr \<Rightarrow> val \<Rightarrow> addr action" where
  "APIv4_array gt e schema proposed_name =
     and_then (read_dict schema) (\<lambda>d.
       case get_default d ''items'' VNone of
         VBool True \<Rightarrow>
           and_then (new_type (NativeType ''List'' ''typing'')) (\<lambda>base.
           and_then (new_type (NativeType ''Any'' ''typing'')) (\<lambda>t.
             new_type (CombinedType base [t])))
       | VBool False \<Rightarrow> raise NotImplementedError
       | VList items \<Rightarrow>
           and_then (for_each (\<lambda>item. gt item (VStr ''Base'') True) items) (\<lambda>inner_types.
           and_then (new_type (NativeType ''Tuple'' ''typing'')) (\<lambda>base.
           and_then (new_type (CombinedType base inner_types)) (\<lambda>type_obj.
           and_then (read_dict schema) (\<lambda>d1.
           and_then (lift (arity_not_pinned (get_default d1 ''minItems'' VNone)
                             (get_default d1 ''maxItems'' VNone) (length items))) (\<lambda>warn.
             if warn
             then and_then (set_comments type_obj tuple_warning) (\<lambda>u. return type_obj)
             else return type_obj)))))
       | VNone \<Rightarrow>
           and_then (new_type (BuiltinType ''None'')) (\<lambda>type_obj.
           and_then (set_comments type_obj [''WARNING: we get an array without any items'']) (\<lambda>u.
             return type_obj))
       | items \<Rightarrow>
           and_then (new_type (NativeType ''List'' ''typing'')) (\<lambda>base.
           and_then (lift (add_str proposed_name '' item'')) (\<lambda>n.
           and_then (gt items n True) (\<lambda>t.
             new_type (CombinedType base [t])))))"

subsection \<open>\<^verbatim>\<open>APIv4.all_of\<close> and \<^verbatim>\<open>APIv4.any_of\<close>\<close>

text \<open>
  The comprehension over \<^verbatim>\<open>enumerate(subschema)\<close> with the name
  \<^verbatim>\<open>f"{proposed_name} allof{index}"\<close>. The filter \<^verbatim>\<open>o is not None\<close> removes nothing:
  \<^verbatim>\<open>get_type\<close> never returns \<^verbatim>\<open>None\<close>.
\<close>

definition translate_all ::
  "(val \<Rightarrow> val \<Rightarrow> bool \<Rightarrow> addr action) \<Rightarrow> env \<Rightarrow> string \<Rightarrow> val \<Rightarrow> val \<Rightarrow> addr list action" where
  "translate_all gt e word subschema proposed_name =
     (case subschema of
        VList subs \<Rightarrow>
          for_each (\<lambda>(index, s).
                      and_then (lift (format2 (float_str e) proposed_name word (VInt (int index)))) (\<lambda>n.
                        gt s n True))
            (enumerate 0 subs)
      | VStr s \<Rightarrow> raise IllTyped
      | VDict b \<Rightarrow> raise IllTyped
      | _ \<Rightarrow> raise TypeError)"

definition APIv4_all_of ::
  "(val \<Rightarrow> val \<Rightarrow> bool \<Rightarrow> addr action) \<Rightarrow> env \<Rightarrow> addr \<Rightarrow> val \<Rightarrow> val \<Rightarrow> addr action" where
  "APIv4_all_of gt e schema subschema proposed_name =
     and_then (translate_all gt e '' allof'' subschema proposed_name) (\<lambda>inner_types.
     and_then (new_type (NativeType ''Union'' ''typing'')) (\<lambda>base.
     and_then (new_type (CombinedType base inner_types)) (\<lambda>type_obj.
     and_then (set_comments type_obj
                [''WARNING: PEP 544 does not support an Intersection type,'',
                 ''so `allOf` is interpreted as a `Union` for now.'',
                 ''See: https://github.com/python/typing/issues/213'']) (\<lambda>u.
       return type_obj))))"

definition APIv4_any_of ::
  "(val \<Rightarrow> val \<Rightarrow> bool \<Rightarrow> addr action) \<Rightarrow> env \<Rightarrow> addr \<Rightarrow> val \<Rightarrow> val \<Rightarrow> addr action" where
  "APIv4_any_of gt e schema subschema proposed_name =
     and_then (translate_all gt e '' anyof'' subschema proposed_name) (\<lambda>inner_types.
     and_then (new_type (NativeType ''Union'' ''typing'')) (\<lambda>base.
       new_type (CombinedType base inner_types)))"

subsection \<open>\<^verbatim>\<open>APIv4.ref\<close>\<close>

definition cache_lookup :: "string \<Rightarrow> addr option action" where
  "cache_lookup ref st = (Inr (map_of (ref_type st) ref), st)"

definition cache_store :: "string \<Rightarrow> addr \<Rightarrow> unit action" where
  "cache_store ref t st = (Inr (), st\<lparr>ref_type := dict_set (ref_type st) ref t\<rparr>)"

text \<open>
  The reference is read, the schema is copied and the copy loses \<^verbatim>\<open>$ref\<close>. The root
  reference \<^verbatim>\<open>"#"\<close> gives the placeholder. Otherwise the cache is asked; on a miss the
  reference is resolved, the copy is updated with the resolved mapping and translated
  under the pushed scope, and only after that call has returned is the result stored
  (unless the reference is the empty string). A reference that is a list or a mapping
  cannot be a key of the cache (\<^verbatim>\<open>TypeError\<close>); another reference that is not a string is
  outside the model.
\<close>

definition APIv4_ref ::
  "(val \<Rightarrow> val \<Rightarrow> bool \<Rightarrow> addr action) \<Rightarrow> env \<Rightarrow> addr \<Rightarrow> val \<Rightarrow> addr action" where
  "APIv4_ref gt e schema0 proposed_name =
     and_then (read_dict schema0) (\<lambda>d.
       case dict_get d ''$ref'' of
         None \<Rightarrow> raise KeyError
       | Some ref_v \<Rightarrow>
           and_then (new_dict (dict_del d ''$ref'')) (\<lambda>schema.
             if ref_v = VStr ''#''
             then
               and_then (new_dict []) (\<lambda>empty.
               and_then (lift (add_str proposed_name '' object'')) (\<lambda>n.
               and_then (APIv4_object gt e empty n) (\<lambda>type_obj.
               and_then (set_comments type_obj
                          [''WARNING: Forward references may not be supported.'',
                           ''See: https://github.com/python/mypy/issues/731'']) (\<lambda>u.
                 return type_obj))))
             else
               (case ref_v of
                  VStr ref \<Rightarrow>
                    and_then (cache_lookup ref) (\<lambda>cached.
                      case cached of
                        Some t \<Rightarrow> return t
                      | None \<Rightarrow>
                          and_then
                            (if \<not> resolver_has_resolve e
                             then resolving e ref (\<lambda>resolved.
                                    and_then (update_dict schema resolved) (\<lambda>u.
                                      gt (VDict schema) (VStr ''Base'') True))
                             else and_then (resolve e ref) (\<lambda>found.
                                  and_then (push_scope (VStr (fst found))) (\<lambda>u.
                                    try_finally
                                      (and_then (update_dict schema (snd found)) (\<lambda>u.
                                         gt (VDict schema) proposed_name True))
                                      pop_scope))) (\<lambda>type_obj.
                          and_then (if ref \<noteq> [] then cache_store ref type_obj else return ()) (\<lambda>u.
                            return type_obj)))
                | VList xs \<Rightarrow> raise TypeError
                | VDict b \<Rightarrow> raise TypeError
                | _ \<Rightarrow> raise IllTyped)))"


subsection \<open>\<^verbatim>\<open>API.get_type_handler\<close>\<close>

text \<open>
  \<^verbatim>\<open>getattr(self, schema_type, None)\<close> finds any attribute of the engine object whose name
  is the type string: the handlers, the other public methods and the three instance
  attributes. Names that begin with an underscore are refused before the lookup.
\<close>

datatype attribute =
    Attr_resolver
  | Attr_additional_properties
  | Attr_ref_type
  | Method_get_type_handler
  | Method_get_type
  | Method_ref
  | Method_all_of
  | Method_any_of
  | Method_const
  | Method_enum
  | Method_default
  | Method_boolean
  | Method_object
  | Method_array
  | Method_string
  | Method_number
  | Method_integer
  | Method_null

definition attributes :: "(string \<times> attribute) list" where
  "attributes =
     [(''resolver'', Attr_resolver),
      (''additional_properties'', Attr_additional_properties),
      (''ref_type'', Attr_ref_type),
      (''get_type_handler'', Method_get_type_handler),
      (''get_type'', Method_get_type),
      (''ref'', Method_ref),
      (''all_of'', Method_all_of),
      (''any_of'', Method_any_of),
      (''const'', Method_const),
      (''enum'', Method_enum),
      (''default'', Method_default),
      (''boolean'', Method_boolean),
      (''object'', Method_object),
      (''array'', Method_array),
      (''string'', Method_string),
      (''number'', Method_number),
      (''integer'', Method_integer),
      (''null'', Method_null)]"

text \<open>
  A type that is not a string has no \<^verbatim>\<open>startswith\<close> (\<^verbatim>\<open>AttributeError\<close>); a name with a
  leading underscore raises \<^verbatim>\<open>AttributeError\<close>; a name that is no attribute raises
  \<^verbatim>\<open>NotImplementedError\<close>. The function never returns \<^verbatim>\<open>None\<close>, so the fallback at the
  end of \<^verbatim>\<open>_get_type\<close> (a commented \<^verbatim>\<open>None\<close> builtin) cannot be reached.
\<close>

definition API_get_type_handler :: "val \<Rightarrow> pyerror + attribute" where
  "API_get_type_handler schema_type =
     (case schema_type of
        VStr s \<Rightarrow>
          if take 1 s = ''_'' then Inl AttributeError
          else (case map_of attributes s of
                  None \<Rightarrow> Inl NotImplementedError
                | Some handler \<Rightarrow> Inr handler)
      | _ \<Rightarrow> Inl AttributeError)"

text \<open>
  \<^verbatim>\<open>handler(schema, proposed_name)\<close>. The three instance attributes are not callable,
  \<^verbatim>\<open>all_of\<close> and \<^verbatim>\<open>any_of\<close> miss an argument and \<^verbatim>\<open>get_type_handler\<close> has one too many:
  \<^verbatim>\<open>TypeError\<close>.
\<close>

definition call_handler ::
  "(val \<Rightarrow> val \<Rightarrow> bool \<Rightarrow> addr action) \<Rightarrow> env \<Rightarrow> attribute \<Rightarrow> addr \<Rightarrow> val \<Rightarrow> addr action" where
  "call_handler gt e handler schema proposed_name =
     (case handler of
        Attr_resolver \<Rightarrow> raise TypeError
      | Attr_additional_properties \<Rightarrow> raise TypeError
      | Attr_ref_type \<Rightarrow> raise TypeError
      | Method_get_type_handler \<Rightarrow> raise TypeError
      | Method_get_type \<Rightarrow> gt (VDict schema) proposed_name True
      | Method_ref \<Rightarrow> APIv4_ref gt e schema proposed_name
      | Method_all_of \<Rightarrow> raise TypeError
      | Method_any_of \<Rightarrow> raise TypeError
      | Method_const \<Rightarrow> APIv4_const schema proposed_name
      | Method_enum \<Rightarrow> APIv4_enum e schema proposed_name
      | Method_default \<Rightarrow> APIv4_default schema proposed_name
      | Method_boolean \<Rightarrow> APIv4_boolean schema proposed_name
      | Method_object \<Rightarrow> APIv4_object gt e schema proposed_name
      | Method_array \<Rightarrow> APIv4_array gt e schema proposed_name
      | Method_string \<Rightarrow> APIv4_string schema proposed_name
      | Method_number \<Rightarrow> APIv4_number schema proposed_name
      | Method_integer \<Rightarrow> APIv4_integer schema proposed_name
      | Method_null \<Rightarrow> APIv4_null schema proposed_name)"

subsection \<open>\<^verbatim>\<open>API._get_type\<close>\<close>

definition API__get_type ::
  "(val \<Rightarrow> val \<Rightarrow> bool \<Rightarrow> addr action) \<Rightarrow> env \<Rightarrow> addr \<Rightarrow> val \<Rightarrow> val \<Rightarrow> addr action" where
  "API__get_type gt e schema schema_type proposed_name0 =
     and_then (read_dict schema) (\<lambda>d.
       if dict_contains d ''enum''
       then and_then (lift (API_get_type_handler (VStr ''enum''))) (\<lambda>handler.
              call_handler gt e handler schema (get_default d ''title'' proposed_name0))
       else and_then (lift (API_get_type_handler schema_type)) (\<lambda>handler.
              call_handler gt e handler schema (get_default d ''title'' proposed_name0)))"

subsection \<open>\<^verbatim>\<open>API._resolve_ref\<close>\<close>

text \<open>
  \<^verbatim>\<open>"$ref" in schema\<close> raises \<^verbatim>\<open>TypeError\<close> on \<^verbatim>\<open>None\<close>, a boolean or a number; a string
  or a list is outside the model. The mapping that is passed in is itself updated with
  the resolved mapping, and returned.
\<close>

definition API__resolve_ref :: "env \<Rightarrow> val \<Rightarrow> val action" where
  "API__resolve_ref e schema =
     (case schema of
        VDict a \<Rightarrow>
          and_then (read_dict a) (\<lambda>d.
            if dict_contains d ''$ref''
            then (case dict_get d ''$ref'' of
                    Some (VStr ref) \<Rightarrow>
                      and_then (resolving e ref (\<lambda>resolved. update_dict a resolved)) (\<lambda>u.
                        return schema)
                  | _ \<Rightarrow> raise IllTyped)
            else return schema)
      | VStr s \<Rightarrow> raise IllTyped
      | VList xs \<Rightarrow> raise IllTyped
      | _ \<Rightarrow> raise TypeError)"

subsection \<open>\<^verbatim>\<open>API._get_type_internal\<close>\<close>

text \<open>
  The branch \<^verbatim>\<open>if "if" in schema\<close>. \<open>base_schema\<close>, \<open>then_schema\<close> and \<open>else_schema\<close> are
  new mappings; their values are the objects the schema holds, not copies. A value that
  has no \<^verbatim>\<open>update\<close> or \<^verbatim>\<open>get\<close> method raises \<^verbatim>\<open>AttributeError\<close>.
\<close>

definition if_then_else ::
  "(val \<Rightarrow> val \<Rightarrow> bool \<Rightarrow> addr action) \<Rightarrow> env \<Rightarrow> addr \<Rightarrow> val \<Rightarrow> addr action" where
  "if_then_else gt e schema proposed_name =
     and_then (read_dict schema) (\<lambda>d.
     and_then (new_dict (foldl dict_del d [''if'', ''then'', ''else'', ''title'', ''description''])) (\<lambda>base_schema.
     and_then (read_dict base_schema) (\<lambda>base.
     and_then (new_dict base) (\<lambda>then_schema.
     and_then (get_or_new_dict d ''then'') (\<lambda>then_v.
     and_then (API__resolve_ref e then_v) (\<lambda>then_resolved.
     and_then (update_dict then_schema then_resolved) (\<lambda>u.
     and_then (read_dict then_schema) (\<lambda>t0.
     and_then (if \<not> dict_contains t0 ''properties''
               then and_then (new_dict []) (\<lambda>fresh. write_dict then_schema (dict_set t0 ''properties'' (VDict fresh)))
               else return ()) (\<lambda>u.
     and_then (read_dict then_schema) (\<lambda>t1.
     and_then (is_truthy (get_default t1 ''properties'' VNone)) (\<lambda>then_ok.
       if \<not> then_ok then raise AssertionError
       else
     and_then (read_dict schema) (\<lambda>d1.
     and_then (get_or_new_dict d1 ''if'') (\<lambda>if_v.
     and_then (API__resolve_ref e if_v) (\<lambda>if_resolved.
     and_then (case if_resolved of
                 VDict c \<Rightarrow> and_then (read_dict c) (\<lambda>if_d. get_or_new_dict if_d ''properties'')
               | _ \<Rightarrow> raise AttributeError) (\<lambda>if_properties.
     and_then (is_truthy if_properties) (\<lambda>if_ok.
       if \<not> if_ok then raise AssertionError
       else
     and_then (case get_default t1 ''properties'' VNone of
                 VDict p \<Rightarrow> update_dict p if_properties
               | _ \<Rightarrow> raise AttributeError) (\<lambda>u.
     and_then (read_dict base_schema) (\<lambda>base1.
     and_then (new_dict base1) (\<lambda>else_schema.
     and_then (read_dict schema) (\<lambda>d2.
     and_then (get_or_new_dict d2 ''else'') (\<lambda>else_v.
     and_then (API__resolve_ref e else_v) (\<lambda>else_resolved.
     and_then (update_dict else_schema else_resolved) (\<lambda>u.
     and_then (new_type (NativeType ''Union'' ''typing'')) (\<lambda>union.
     and_then (lift (add_str proposed_name '' then'')) (\<lambda>then_name.
     and_then (gt (VDict then_schema) then_name True) (\<lambda>then_type.
     and_then (lift (add_str proposed_name '' else'')) (\<lambda>else_name.
     and_then (gt (VDict else_schema) else_name True) (\<lambda>else_type.
       new_type (CombinedType union [then_type, else_type])))))))))))))))))))))))))))))"

text \<open>The branch \<^verbatim>\<open>isinstance(schema_type, list)\<close>.\<close>

definition type_list ::
  "(val \<Rightarrow> val \<Rightarrow> bool \<Rightarrow> addr action) \<Rightarrow> env \<Rightarrow> addr \<Rightarrow> val list \<Rightarrow> val \<Rightarrow> addr action" where
  "type_list gt e schema schema_type proposed_name0 =
     and_then (read_dict schema) (\<lambda>d.
     and_then (new_dict (if dict_contains d ''title'' then dict_del d ''title'' else d)) (\<lambda>schema_copy.
     and_then (for_each
                (\<lambda>primitive_type.
                   and_then (lift (format2 (float_str e) (get_default d ''title'' proposed_name0) '' ''
                                     primitive_type)) (\<lambda>n.
                     API__get_type gt e schema_copy primitive_type n))
                schema_type) (\<lambda>inner_types.
     and_then (new_type (NativeType ''Union'' ''typing'')) (\<lambda>union.
       new_type (CombinedType union inner_types)))))"

text \<open>
  The whole method. The scope of \<^verbatim>\<open>$id\<close> is pushed on entry; the one \<^verbatim>\<open>pop_scope\<close> of the
  method stands after the dispatch on \<^verbatim>\<open>if\<close>, \<^verbatim>\<open>$ref\<close>, \<^verbatim>\<open>const\<close>, a list-valued
  \<^verbatim>\<open>type\<close> and the keys tried when \<^verbatim>\<open>type\<close> is absent, all of which return.
\<close>

definition API__get_type_internal ::
  "(val \<Rightarrow> val \<Rightarrow> bool \<Rightarrow> addr action) \<Rightarrow> env \<Rightarrow> addr \<Rightarrow> val \<Rightarrow> addr action" where
  "API__get_type_internal gt e schema proposed_name0 =
     and_then (read_dict schema) (\<lambda>d.
     and_then (is_truthy (get_default d ''$id'' (VStr []))) (\<lambda>has_scope.
     and_then (if has_scope then push_scope (get_default d ''$id'' (VStr [])) else return ()) (\<lambda>u.
       if dict_contains d ''if'' then if_then_else gt e schema (get_default d ''title'' proposed_name0)
       else if dict_contains d ''$ref'' then APIv4_ref gt e schema (get_default d ''title'' proposed_name0)
       else if dict_contains d ''const'' then APIv4_const schema (get_default d ''title'' proposed_name0)
       else
         (case get_default d ''type'' VNone of
            VList schema_type \<Rightarrow> type_list gt e schema schema_type (get_default d ''title'' proposed_name0)
          | schema_type \<Rightarrow>
              if schema_type = VNone \<and> dict_contains d ''allOf''
              then APIv4_all_of gt e schema (get_default d ''allOf'' VNone) (get_default d ''title'' proposed_name0)
              else if schema_type = VNone \<and> dict_contains d ''anyOf''
              then APIv4_any_of gt e schema (get_default d ''anyOf'' VNone) (get_default d ''title'' proposed_name0)
              else if schema_type = VNone \<and> dict_contains d ''oneOf''
              then APIv4_any_of gt e schema (get_default d ''oneOf'' VNone) (get_default d ''title'' proposed_name0)
              else if schema_type = VNone \<and> dict_contains d ''enum''
              then APIv4_enum e schema (get_default d ''title'' proposed_name0)
              else if schema_type = VNone \<and> dict_contains d ''default''
              then APIv4_default schema (get_default d ''title'' proposed_name0)
              else
                and_then (is_truthy (get_default d ''$id'' (VStr []))) (\<lambda>has_scope'.
                and_then (if has_scope' then pop_scope else return ()) (\<lambda>u.
                  if schema_type = VNone
                  then and_then (new_type (BuiltinType ''None'')) (\<lambda>type_obj.
                       and_then (set_comments type_obj [''WARNING: we get an scheam without any type'']) (\<lambda>u.
                         return type_obj))
                  else (case schema_type of
                          VStr s \<Rightarrow> API__get_type gt e schema schema_type (get_default d ''title'' proposed_name0)
                        | _ \<Rightarrow> raise AssertionError)))))))"

subsection \<open>\<^verbatim>\<open>API.get_type\<close>\<close>

text \<open>
  One activation of \<^verbatim>\<open>get_type(schema, proposed_name, auto_alias)\<close>. A schema that is
  neither a boolean nor a mapping has no \<^verbatim>\<open>get\<close> method. The description is read from
  the schema as it is after \<^verbatim>\<open>_get_type_internal\<close> has run.
\<close>

definition get_type_call ::
  "(val \<Rightarrow> val \<Rightarrow> bool \<Rightarrow> addr action) \<Rightarrow> env \<Rightarrow> val \<Rightarrow> val \<Rightarrow> bool \<Rightarrow> addr action" where
  "get_type_call gt e schema proposed_name auto_alias =
     (case schema of
        VBool b \<Rightarrow> if b then new_type (NativeType ''Any'' ''typing'') else new_type (BuiltinType ''None'')
      | VDict a \<Rightarrow>
          and_then (API__get_type_internal gt e a proposed_name) (\<lambda>the_type.
          and_then (comments the_type) (\<lambda>additional_description.
          and_then (read_dict a) (\<lambda>d.
          and_then (lift (get_description (float_str e) d)) (\<lambda>description0.
          and_then (isinstance_NamedType the_type) (\<lambda>named.
            if \<not> named \<and> (description0 \<noteq> [] \<or> additional_description \<noteq> [])
            then
              (if auto_alias
               then and_then (lift (get_name (unidecode_table e) (Some d) proposed_name False)) (\<lambda>name.
                      new_type (TypeAlias name the_type
                                  ((if description0 \<noteq> [] \<and> additional_description \<noteq> []
                                    then description0 @ [[]] else description0) @ additional_description)))
               else and_then (set_comments the_type
                                ((if description0 \<noteq> [] \<and> additional_description \<noteq> []
                                  then description0 @ [[]] else description0) @ additional_description)) (\<lambda>u.
                      return the_type))
            else return the_type)))))
      | _ \<Rightarrow> raise AttributeError)"

text \<open>
  The recursion of \<^verbatim>\<open>get_type\<close>. The first argument bounds the depth of nested calls:
  Python raises \<^verbatim>\<open>RecursionError\<close> when the depth limit of the interpreter is reached, and
  that exception propagates like any other.
\<close>

fun API_get_type :: "nat \<Rightarrow> env \<Rightarrow> val \<Rightarrow> val \<Rightarrow> bool \<Rightarrow> addr action" where
  "API_get_type 0 e schema proposed_name auto_alias = raise RecursionError"
| "API_get_type (Suc depth) e schema proposed_name auto_alias =
     get_type_call (API_get_type depth e) e schema proposed_name auto_alias"


section \<open>Example documents\<close>

text \<open>
  The examples are ASCII text, on which the transliteration table is never consulted, and
  hold no float; both parameters are empty in them.
\<close>

definition no_table :: "char \<Rightarrow> string" where
  "no_table c = []"

definition no_float :: "rat \<Rightarrow> string" where
  "no_float q = []"

text \<open>
  An engine whose resolver finds nothing, and the state of a freshly built engine over a
  store of documents: no Type object yet, the resolver's stack holding its base URI (the
  empty string), an empty cache.
\<close>

definition no_resolver :: env where
  "no_resolver =
     \<lparr>unidecode_table = no_table, float_str = no_float,
      resolver_resolve = (\<lambda>scopes ref. Inl RefResolutionError),
      resolver_has_resolve = True, additional_properties = ONLY_EXPLICIT\<rparr>"

definition fresh_engine :: "pydict list \<Rightarrow> state" where
  "fresh_engine documents = \<lparr>dicts = documents, types = [], scopes_stack = [VStr []], ref_type = []\<rparr>"

text \<open>\<^verbatim>\<open>{"type": ["string", "integer"]}\<close>\<close>

definition string_or_integer :: "pydict list" where
  "string_or_integer = [[(''type'', VList [VStr ''string'', VStr ''integer''])]]"

text \<open>\<^verbatim>\<open>{"type": "array", "items": false}\<close> at address 0 and \<^verbatim>\<open>{"type": "tuple"}\<close> at address 1\<close>

definition unsupported :: "pydict list" where
  "unsupported = [[(''type'', VStr ''array''), (''items'', VBool False)], [(''type'', VStr ''tuple'')]]"

text \<open>\<^verbatim>\<open>{"type": "integer", "enum": ["a", "b"]}\<close>\<close>

definition integer_enum :: "pydict list" where
  "integer_enum = [[(''type'', VStr ''integer''), (''enum'', VList [VStr ''a'', VStr ''b''])]]"

text \<open>
  \<^verbatim>\<open>{"type": "array", "items": [S, S, S]}\<close> with \<^verbatim>\<open>S = {"type": "string"}\<close> at address 1,
  and the same schema with \<^verbatim>\<open>"minItems": 3, "maxItems": 3\<close>.
\<close>

definition tuple_unpinned :: "pydict list" where
  "tuple_unpinned =
     [[(''type'', VStr ''array''), (''items'', VList [VDict 1, VDict 1, VDict 1])],
      [(''type'', VStr ''string'')]]"

definition tuple_pinned :: "pydict list" where
  "tuple_pinned =
     [[(''type'', VStr ''array''), (''items'', VList [VDict 1, VDict 1, VDict 1]),
       (''minItems'', VInt 3), (''maxItems'', VInt 3)],
      [(''type'', VStr ''string'')]]"

text \<open>\<^verbatim>\<open>{"$id": "http://example.com/a", "const": 1}\<close>\<close>

definition id_const :: "pydict list" where
  "id_const = [[(''$id'', VStr ''http://example.com/a''), (''const'', VInt 1)]]"

text \<open>
  \<^verbatim>\<open>{"if": {"properties": {"a": {"type": "integer"}}},
    "then": {"properties": {"b": {"type": "string"}}}}\<close>: the schema at address 0, its
  \<^verbatim>\<open>if\<close> at 1 with the properties at 2, its \<^verbatim>\<open>then\<close> at 3 with the properties at 4.
\<close>

definition if_then :: "pydict list" where
  "if_then =
     [[(''if'', VDict 1), (''then'', VDict 3)],
      [(''properties'', VDict 2)],
      [(''a'', VDict 5)],
      [(''properties'', VDict 4)],
      [(''b'', VDict 6)],
      [(''type'', VStr ''integer'')],
      [(''type'', VStr ''string'')]]"

text \<open>\<^verbatim>\<open>{"$id": "http://example.com/a", "$ref": "#/nowhere"}\<close>, a reference no resolver finds\<close>

definition id_bad_ref :: "pydict list" where
  "id_bad_ref = [[(''$id'', VStr ''http://example.com/a''), (''$ref'', VStr ''#/nowhere'')]]"

text \<open>
  A recursive definition, "a tree is an array of trees":
  \<^verbatim>\<open>{"$ref": "#/definitions/tree",
    "definitions": {"tree": {"type": "array", "items": {"$ref": "#/definitions/tree"}}}}\<close>.
  The root is at address 0, \<^verbatim>\<open>definitions\<close> at 1, the definition of \<^verbatim>\<open>tree\<close> at 2 and its
  \<^verbatim>\<open>items\<close> at 3. The resolver finds the definition under its reference, which is also the URL it
  returns as the new scope.
\<close>

definition tree :: "pydict list" where
  "tree =
     [[(''$ref'', VStr ''#/definitions/tree''), (''definitions'', VDict 1)],
      [(''tree'', VDict 2)],
      [(''type'', VStr ''array''), (''items'', VDict 3)],
      [(''$ref'', VStr ''#/definitions/tree'')]]"

definition tree_resolver :: env where
  "tree_resolver =
     \<lparr>unidecode_table = no_table, float_str = no_float,
      resolver_resolve =
        (\<lambda>scopes ref. if ref = ''#/definitions/tree'' then Inr (''#/definitions/tree'', VDict 2) else Inl RefResolutionError),
      resolver_has_resolve = True, additional_properties = ONLY_EXPLICIT\<rparr>"

text \<open>
  What every state of a translation of that document satisfies: the definition and its
  \<^verbatim>\<open>items\<close> are as in the document and the cache is empty.
\<close>

definition tree_state :: "state \<Rightarrow> bool" where
  "tree_state st =
     (3 < length (dicts st)
      \<and> dicts st ! 2 = [(''type'', VStr ''array''), (''items'', VDict 3)]
      \<and> dicts st ! 3 = [(''$ref'', VStr ''#/definitions/tree'')]
      \<and> ref_type st = [])"

text \<open>The schemas that the translation of that document passes to \<^verbatim>\<open>get_type\<close>.\<close>

definition tree_schemas :: "pydict list" where
  "tree_schemas =
     [[(''$ref'', VStr ''#/definitions/tree''), (''definitions'', VDict 1)],
      [(''$ref'', VStr ''#/definitions/tree'')],
      [(''definitions'', VDict 1), (''type'', VStr ''array''), (''items'', VDict 3)],
      [(''type'', VStr ''array''), (''items'', VDict 3)]]"

text \<open>
  A definition used twice:
  \<^verbatim>\<open>{"anyOf": [{"$ref": "#/definitions/s"}, {"$ref": "#/definitions/s"}],
    "definitions": {"s": {"type": "string"}}}\<close>. The two call sites are at the addresses
  1 and 2, the definition of \<^verbatim>\<open>s\<close> at 4.
\<close>

definition shared :: "pydict list" where
  "shared =
     [[(''anyOf'', VList [VDict 1, VDict 2]), (''definitions'', VDict 3)],
      [(''$ref'', VStr ''#/definitions/s'')],
      [(''$ref'', VStr ''#/definitions/s'')],
      [(''s'', VDict 4)],
      [(''type'', VStr ''string'')]]"

definition s_resolver :: env where
  "s_resolver =
     \<lparr>unidecode_table = no_table, float_str = no_float,
      resolver_resolve =
        (\<lambda>scopes ref. if ref = ''#/definitions/s'' then Inr (''#/definitions/s'', VDict 4)
                       else Inl RefResolutionError),
      resolver_has_resolve = True, additional_properties = ONLY_EXPLICIT\<rparr>"

text \<open>The state after the first call site has been translated: the Type at address 0 is cached.\<close>

definition shared_after_first :: state where
  "shared_after_first =
     \<lparr>dicts = shared @ [[(''type'', VStr ''string'')]],
      types = [\<lparr>instance_of = BuiltinType ''str'', u_comments = Some []\<rparr>],
      scopes_stack = [VStr []],
      ref_type = [(''#/definitions/s'', 0)]\<rparr>"

text \<open>
  \<^verbatim>\<open>{"if": {"properties": {"a": {"type": "integer"}}}, "then": {"$ref": "#/definitions/t"},
    "definitions": {"t": {"properties": {"b": {"type": "string"}}}}}\<close>: the schema at
  address 0, its \<^verbatim>\<open>then\<close> at 3, the definition of \<^verbatim>\<open>t\<close> at 4 with its properties at 6.
\<close>

definition if_then_ref :: "pydict list" where
  "if_then_ref =
     [[(''if'', VDict 1), (''then'', VDict 3), (''definitions'', VDict 8)],
      [(''properties'', VDict 2)],
      [(''a'', VDict 5)],
      [(''$ref'', VStr ''#/definitions/t'')],
      [(''properties'', VDict 6)],
      [(''type'', VStr ''integer'')],
      [(''b'', VDict 7)],
      [(''type'', VStr ''string'')],
      [(''t'', VDict 4)]]"

definition t_resolver :: env where
  "t_resolver =
     \<lparr>unidecode_table = no_table, float_str = no_float,
      resolver_resolve =
        (\<lambda>scopes ref. if ref = ''#/definitions/t'' then Inr (''#/definitions/t'', VDict 4) else Inl RefResolutionError),
      resolver_has_resolve = True, additional_properties = ONLY_EXPLICIT\<rparr>"


text \<open>
  Two definitions that refer to each other, "an a is an array of b, a b is an array of a":
  \<^verbatim>\<open>{"$ref": "#/definitions/a",
    "definitions": {"a": {"type": "array", "items": {"$ref": "#/definitions/b"}},
                    "b": {"type": "array", "items": {"$ref": "#/definitions/a"}}}}\<close>.
  The root is at address 0, \<^verbatim>\<open>definitions\<close> at 1, the definition of \<^verbatim>\<open>a\<close> at 2 with its
  \<^verbatim>\<open>items\<close> at 3, the definition of \<^verbatim>\<open>b\<close> at 4 with its \<^verbatim>\<open>items\<close> at 5.
\<close>

definition mutual :: "pydict list" where
  "mutual =
     [[(''$ref'', VStr ''#/definitions/a''), (''definitions'', VDict 1)],
      [(''a'', VDict 2), (''b'', VDict 4)],
      [(''type'', VStr ''array''), (''items'', VDict 3)],
      [(''$ref'', VStr ''#/definitions/b'')],
      [(''type'', VStr ''array''), (''items'', VDict 5)],
      [(''$ref'', VStr ''#/definitions/a'')]]"

definition mutual_resolver :: env where
  "mutual_resolver =
     \<lparr>unidecode_table = no_table, float_str = no_float,
      resolver_resolve =
        (\<lambda>scopes ref. if ref = ''#/definitions/a'' then Inr (''#/definitions/a'', VDict 2)
                       else if ref = ''#/definitions/b'' then Inr (''#/definitions/b'', VDict 4)
                       else Inl RefResolutionError),
      resolver_has_resolve = True, additional_properties = ONLY_EXPLICIT\<rparr>"

text \<open>
  What every state of a translation of that document satisfies: the two definitions and
  their \<^verbatim>\<open>items\<close> are as in the document and the cache is empty.
\<close>

definition mutual_state :: "state \<Rightarrow> bool" where
  "mutual_state st =
     (5 < length (dicts st)
      \<and> dicts st ! 2 = [(''type'', VStr ''array''), (''items'', VDict 3)]
      \<and> dicts st ! 3 = [(''$ref'', VStr ''#/definitions/b'')]
      \<and> dicts st ! 4 = [(''type'', VStr ''array''), (''items'', VDict 5)]
      \<and> dicts st ! 5 = [(''$ref'', VStr ''#/definitions/a'')]
      \<and> ref_type st = [])"

text \<open>The schemas that the translation of that document passes to \<^verbatim>\<open>get_type\<close>.\<close>

definition mutual_schemas :: "pydict list" where
  "mutual_schemas =
     [[(''$ref'', VStr ''#/definitions/a''), (''definitions'', VDict 1)],
      [(''$ref'', VStr ''#/definitions/a'')],
      [(''$ref'', VStr ''#/definitions/b'')],
      [(''definitions'', VDict 1), (''type'', VStr ''array''), (''items'', VDict 3)],
      [(''type'', VStr ''array''), (''items'', VDict 3)],
      [(''type'', VStr ''array''), (''items'', VDict 5)]]"

text \<open>
  One definition referred to under two spellings of its URI. The document is
  \<^verbatim>\<open>http://example.com/root.json\<close>:
  \<^verbatim>\<open>{"anyOf": [{"$ref": "#/definitions/s"}, {"$ref": "root.json#/definitions/s"}],
    "definitions": {"s": {"type": "string"}}}\<close>.
  Against the base URI of the document both references resolve to the URI
  \<^verbatim>\<open>http://example.com/root.json#/definitions/s\<close>, the definition at address 4. The engine
  starts with the base URI of the document on the resolver's stack.
\<close>

definition two_spellings :: "pydict list" where
  "two_spellings =
     [[(''anyOf'', VList [VDict 1, VDict 2]), (''definitions'', VDict 3)],
      [(''$ref'', VStr ''#/definitions/s'')],
      [(''$ref'', VStr ''root.json#/definitions/s'')],
      [(''s'', VDict 4)],
      [(''type'', VStr ''string'')]]"

definition root_json_resolver :: env where
  "root_json_resolver =
     \<lparr>unidecode_table = no_table, float_str = no_float,
      resolver_resolve =
        (\<lambda>scopes ref. if ref = ''#/definitions/s'' \<or> ref = ''root.json#/definitions/s''
                       then Inr (''http://example.com/root.json#/definitions/s'', VDict 4)
                       else Inl RefResolutionError),
      resolver_has_resolve = True, additional_properties = ONLY_EXPLICIT\<rparr>"

definition root_json_engine :: state where
  "root_json_engine =
     \<lparr>dicts = two_spellings, types = [],
      scopes_stack = [VStr ''http://example.com/root.json''], ref_type = []\<rparr>"

text \<open>
  A definition that is referred to once directly and once from the \<^verbatim>\<open>then\<close> of a
  conditional:
  \<^verbatim>\<open>{"anyOf": [{"$ref": "#/definitions/t"},
              {"if": {"properties": {"a": {"type": "integer"}}},
               "then": {"$ref": "#/definitions/t"}}],
    "definitions": {"t": {"type": "object", "properties": {"b": {"type": "string"}}}}}\<close>.
  The two alternatives are at the addresses 1 and 2, the definition of \<^verbatim>\<open>t\<close> at 4 with its
  properties at 7, the \<^verbatim>\<open>if\<close> at 5 with its properties at 8, the \<^verbatim>\<open>then\<close> at 6.
\<close>

definition ref_and_conditional :: "pydict list" where
  "ref_and_conditional =
     [[(''anyOf'', VList [VDict 1, VDict 2]), (''definitions'', VDict 3)],
      [(''$ref'', VStr ''#/definitions/t'')],
      [(''if'', VDict 5), (''then'', VDict 6)],
      [(''t'', VDict 4)],
      [(''type'', VStr ''object''), (''properties'', VDict 7)],
      [(''properties'', VDict 8)],
      [(''$ref'', VStr ''#/definitions/t'')],
      [(''b'', VDict 9)],
      [(''a'', VDict 10)],
      [(''type'', VStr ''string'')],
      [(''type'', VStr ''integer'')]]"

text \<open>
  The documents as the first translation of \<^verbatim>\<open>ref_and_conditional\<close> leaves them, without
  the copies that the translation made for itself: the \<^verbatim>\<open>then\<close> (address 6) has received
  the keys of the definition, and the properties of the definition (address 7) the
  property \<^verbatim>\<open>a\<close> of the \<^verbatim>\<open>if\<close>.
\<close>

definition ref_and_conditional_after :: "pydict list" where
  "ref_and_conditional_after =
     [[(''anyOf'', VList [VDict 1, VDict 2]), (''definitions'', VDict 3)],
      [(''$ref'', VStr ''#/definitions/t'')],
      [(''if'', VDict 5), (''then'', VDict 6)],
      [(''t'', VDict 4)],
      [(''type'', VStr ''object''), (''properties'', VDict 7)],
      [(''properties'', VDict 8)],
      [(''$ref'', VStr ''#/definitions/t''), (''type'', VStr ''object''), (''properties'', VDict 7)],
      [(''b'', VDict 9), (''a'', VDict 10)],
      [(''a'', VDict 10)],
      [(''type'', VStr ''string'')],
      [(''type'', VStr ''integer'')]]"

text \<open>
  Schemas that carry an unsupported construct beside a key that is dispatched before the
  type: \<^verbatim>\<open>{"type": "array", "items": false, "const": 1}\<close> at address 0 and
  \<^verbatim>\<open>{"type": "tuple", "enum": ["a"]}\<close> at address 1.
\<close>

definition unsupported_not_reached :: "pydict list" where
  "unsupported_not_reached =
     [[(''type'', VStr ''array''), (''items'', VBool False), (''const'', VInt 1)],
      [(''type'', VStr ''tuple''), (''enum'', VList [VStr ''a''])]]"

text \<open>
  A conditional whose \<^verbatim>\<open>then\<close> has no properties,
  \<^verbatim>\<open>{"if": {"properties": {"a": {"type": "integer"}}}, "then": {"required": ["a"]}}\<close>:
  the schema at address 0, its \<^verbatim>\<open>if\<close> at 1 with the properties at 2, its \<^verbatim>\<open>then\<close> at 3.
\<close>

definition then_without_properties :: "pydict list" where
  "then_without_properties =
     [[(''if'', VDict 1), (''then'', VDict 3)],
      [(''properties'', VDict 2)],
      [(''a'', VDict 4)],
      [(''required'', VList [VStr ''a''])],
      [(''type'', VStr ''integer'')]]"


section \<open>Basic facts\<close>

lemma dict_contains_get: "dict_contains d k \<longleftrightarrow> dict_get d k \<noteq> None"
  by (simp add: dict_contains_def dict_get_def map_of_eq_None_iff)

lemma member_lines_Inr:
  "member_lines table fs vs = Inr ls \<longleftrightarrow> map (member_line table fs) vs = map Inr ls"
proof (induction vs arbitrary: ls)
  case Nil
  then show ?case by auto
next
  case (Cons v vs)
  show ?case
  proof (cases "member_line table fs v")
    case (Inl err)
    then show ?thesis by (auto simp: map_eq_Cons_conv)
  next
    case (Inr l)
    show ?thesis
    proof (cases "member_lines table fs vs")
      case (Inl err)
      with Cons.IH have "\<And>ms. map (member_line table fs) vs \<noteq> map Inr ms" by simp
      with Inl Inr show ?thesis by (auto simp: map_eq_Cons_conv)
    next
      case (Inr ms)
      with Cons.IH[of ms] have "map (member_line table fs) vs = map Inr ms" by simp
      with Inr \<open>member_line table fs v = Inr l\<close> show ?thesis
        by (auto simp: map_eq_Cons_conv inj_Inr[THEN inj_map_eq_map])
    qed
  qed
qed

lemma and_then_return [simp]: "and_then (return x) f = f x"
  by (rule ext) (simp add: and_then_def return_def)

lemma and_then_raise [simp]: "and_then (raise err) f = raise err"
  by (rule ext) (simp add: and_then_def raise_def)

lemma lift_Inr [simp]: "lift (Inr x) = return x"
  by (rule ext) (simp add: lift_def return_def)

lemma lift_Inl [simp]: "lift (Inl err) = raise err"
  by (rule ext) (simp add: lift_def raise_def)

lemma and_then_read_dict [simp]: "and_then (read_dict a) f st = f (dict_at st a) st"
  by (simp add: and_then_def read_dict_def)

lemma and_then_is_truthy [simp]: "and_then (is_truthy v) f st = f (truthy st v) st"
  by (simp add: and_then_def is_truthy_def)

lemma and_then_push_scope [simp]:
  "and_then (push_scope v) f st = f () (st\<lparr>scopes_stack := scopes_stack st @ [v]\<rparr>)"
  by (simp add: and_then_def push_scope_def)

lemma and_then_new_dict [simp]:
  "and_then (new_dict d) f st = f (length (dicts st)) (st\<lparr>dicts := dicts st @ [d]\<rparr>)"
  by (simp add: and_then_def new_dict_def)

lemma and_then_new_type [simp]:
  "and_then (new_type t) f st =
     f (length (types st)) (st\<lparr>types := types st @ [\<lparr>instance_of = t, u_comments = None\<rparr>]\<rparr>)"
  by (simp add: and_then_def new_type_def)

lemma dict_at_scopes [simp]: "dict_at (st\<lparr>scopes_stack := s\<rparr>) a = dict_at st a"
  by (simp add: dict_at_def)

lemma truthy_scopes [simp]: "truthy (st\<lparr>scopes_stack := s\<rparr>) v = truthy st v"
  by (cases v) (simp_all add: truthy_def)

lemma pop_after_push [simp]:
  "and_then pop_scope f (st\<lparr>scopes_stack := scopes_stack st @ [v]\<rparr>) = f () st"
  by (simp add: and_then_def pop_scope_def)

lemma get_default_idem [simp]: "get_default d k (get_default d k x) = get_default d k x"
  by (simp add: get_default_def split: option.splits)

lemma handler_enum [simp]: "API_get_type_handler (VStr ''enum'') = Inr Method_enum"
  by (simp add: API_get_type_handler_def attributes_def)

lemma get_type_enum:
  "dict_contains (dict_at st a) ''enum'' \<Longrightarrow>
   API__get_type gt e a schema_type proposed_name st =
   APIv4_enum e a (get_default (dict_at st a) ''title'' proposed_name) st"
  by (simp add: API__get_type_def call_handler_def)

lemma get_type_no_enum:
  "\<not> dict_contains (dict_at st a) ''enum'' \<Longrightarrow>
   API__get_type gt e a schema_type proposed_name st =
   and_then (lift (API_get_type_handler schema_type))
     (\<lambda>handler. call_handler gt e handler a (get_default (dict_at st a) ''title'' proposed_name)) st"
  by (simp add: API__get_type_def)

lemma internal_single_type:
  assumes "\<not> dict_contains (dict_at st a) ''if''"
    and "\<not> dict_contains (dict_at st a) ''$ref''"
    and "\<not> dict_contains (dict_at st a) ''const''"
    and "dict_get (dict_at st a) ''type'' = Some (VStr s)"
  shows "API__get_type_internal gt e a proposed_name st =
         API__get_type gt e a (VStr s) (get_default (dict_at st a) ''title'' proposed_name) st"
  using assms
  by (simp add: API__get_type_internal_def get_default_def API__get_type_def)


lemma and_then_Inl: "m st = (Inl err, st') \<Longrightarrow> and_then m f st = (Inl err, st')"
  by (simp add: and_then_def)

lemma and_then_Inr: "m st = (Inr x, st') \<Longrightarrow> and_then m f st = f x st'"
  by (simp add: and_then_def)

lemma and_then_InrE:
  assumes "and_then m f st = (Inr y, st')"
  obtains x st1 where "m st = (Inr x, st1)" and "f x st1 = (Inr y, st')"
  using assms by (auto simp: and_then_def split: prod.splits sum.splits)

lemma for_each_length:
  "for_each body xs st = (Inr ys, st') \<Longrightarrow> length ys = length xs"
proof (induction xs arbitrary: ys st st')
  case Nil
  then show ?case by (simp add: return_def)
next
  case (Cons x xs)
  from Cons.prems obtain y st1 where "body x st = (Inr y, st1)"
      and rest: "and_then (for_each body xs) (\<lambda>ys. return (y # ys)) st1 = (Inr ys, st')"
    by (auto elim: and_then_InrE)
  from rest obtain zs st2 where "for_each body xs st1 = (Inr zs, st2)"
      and "return (y # zs) st2 = (Inr ys, st')"
    by (auto elim: and_then_InrE)
  with Cons.IH show ?case by (auto simp: return_def)
qed

lemma array_items_false:
  "dict_get (dict_at st a) ''items'' = Some (VBool False) \<Longrightarrow>
   APIv4_array gt e a proposed_name st = (Inl NotImplementedError, st)"
  by (simp add: APIv4_array_def get_default_def raise_def)

lemma handler_unknown:
  "map_of attributes s = None \<Longrightarrow>
   API_get_type_handler (VStr s) = Inl (if take 1 s = ''_'' then AttributeError else NotImplementedError)"
  by (simp add: API_get_type_handler_def)

lemma handler_array [simp]: "API_get_type_handler (VStr ''array'') = Inr Method_array"
  by (simp add: API_get_type_handler_def attributes_def)

lemma internal_type_list:
  assumes "\<not> dict_contains (dict_at st a) ''if''"
    and "\<not> dict_contains (dict_at st a) ''$ref''"
    and "\<not> dict_contains (dict_at st a) ''const''"
    and "dict_get (dict_at st a) ''type'' = Some (VList ts)"
  shows "API__get_type_internal gt e a proposed_name st =
         type_list gt e a ts (get_default (dict_at st a) ''title'' proposed_name)
           (if truthy st (get_default (dict_at st a) ''$id'' (VStr []))
            then st\<lparr>scopes_stack := scopes_stack st @ [get_default (dict_at st a) ''$id'' (VStr [])]\<rparr>
            else st)"
  using assms
  by (simp add: API__get_type_internal_def get_default_def)

lemma dict_del_absent: "\<not> dict_contains d k \<Longrightarrow> dict_del d k = d"
  by (induction d) (auto simp: dict_contains_def dict_del_def)


lemma and_then_set_comments [simp]:
  "and_then (set_comments t cs) f st =
     f () (st\<lparr>types := (types st)[t := (type_at st t)\<lparr>u_comments := Some cs\<rparr>]\<rparr>)"
  by (simp add: and_then_def set_comments_def)

lemma dict_at_types [simp]: "dict_at (st\<lparr>types := ts\<rparr>) a = dict_at st a"
  by (simp add: dict_at_def)


lemma dict_at_new [simp]:
  "dict_at (st\<lparr>dicts := dicts st @ [d]\<rparr>) a =
     (if a < length (dicts st) then dict_at st a else if a = length (dicts st) then d else [])"
  by (auto simp: dict_at_def nth_append)

lemma and_then_cache_lookup [simp]:
  "and_then (cache_lookup ref) f st = f (map_of (ref_type st) ref) st"
  by (simp add: and_then_def cache_lookup_def)

lemma and_then_resolve:
  "and_then (resolve e ref) f st =
     (case resolver_resolve e (scopes_stack st) ref of
        Inl err \<Rightarrow> (Inl err, st)
      | Inr found \<Rightarrow> f found st)"
  by (simp add: and_then_def resolve_def split: sum.splits)

lemma and_then_write_dict [simp]:
  "and_then (write_dict a d) f st = f () (st\<lparr>dicts := (dicts st)[a := d]\<rparr>)"
  by (simp add: and_then_def write_dict_def)

lemma get_type_call_Inl:
  "API__get_type_internal gt e a proposed_name st = (Inl err, st') \<Longrightarrow>
   get_type_call gt e (VDict a) proposed_name auto_alias st = (Inl err, st')"
  by (simp add: get_type_call_def and_then_Inl)

lemma internal_ref:
  assumes "\<not> dict_contains (dict_at st a) ''if''"
    and "dict_contains (dict_at st a) ''$ref''"
  shows "API__get_type_internal gt e a proposed_name st =
         APIv4_ref gt e a (get_default (dict_at st a) ''title'' proposed_name)
           (if truthy st (get_default (dict_at st a) ''$id'' (VStr []))
            then st\<lparr>scopes_stack := scopes_stack st @ [get_default (dict_at st a) ''$id'' (VStr [])]\<rparr>
            else st)"
  using assms by (simp add: API__get_type_internal_def)

lemma ref_hit:
  assumes "dict_get (dict_at st a) ''$ref'' = Some (VStr r)"
    and "r \<noteq> ''#''"
    and "map_of (ref_type st) r = Some t"
  shows "APIv4_ref gt e a proposed_name st =
         (Inr t, st\<lparr>dicts := dicts st @ [dict_del (dict_at st a) ''$ref'']\<rparr>)"
  using assms by (simp add: APIv4_ref_def return_def)

lemma ref_miss:
  assumes "dict_get (dict_at st a) ''$ref'' = Some (VStr r)"
    and "r \<noteq> ''#''"
    and "map_of (ref_type st) r = None"
    and "resolver_has_resolve e"
    and "resolver_resolve e (scopes_stack st) r = Inr (url, VDict target)"
    and "target < length (dicts st)"
  shows "APIv4_ref gt e a proposed_name st =
         and_then (try_finally (gt (VDict (length (dicts st))) proposed_name True) pop_scope)
           (\<lambda>type_obj. and_then (if r \<noteq> [] then cache_store r type_obj else return ())
              (\<lambda>u. return type_obj))
           (st\<lparr>scopes_stack := scopes_stack st @ [VStr url],
               dicts := dicts st @ [dict_update (dict_del (dict_at st a) ''$ref'') (dict_at st target)]\<rparr>)"
  using assms
  by (simp add: APIv4_ref_def update_dict_def and_then_def try_finally_def resolve_def
        push_scope_def read_dict_def write_dict_def new_dict_def cache_lookup_def dict_at_def
        nth_append del: and_then_read_dict and_then_new_dict and_then_push_scope
        and_then_cache_lookup and_then_write_dict)

lemma array_items_dict:
  assumes "dict_get (dict_at st a) ''items'' = Some (VDict i)"
  shows "APIv4_array gt e a (VStr s) st =
         and_then (gt (VDict i) (VStr (s @ '' item'')) True)
           (\<lambda>t. new_type (CombinedType (length (types st)) [t]))
           (st\<lparr>types := types st @ [\<lparr>instance_of = NativeType ''List'' ''typing'', u_comments = None\<rparr>]\<rparr>)"
  using assms by (simp add: APIv4_array_def get_default_def add_str_def)


lemma tree_recursion:
  "tree_state st \<Longrightarrow> a < length (dicts st) \<Longrightarrow> dicts st ! a \<in> set tree_schemas \<Longrightarrow>
   \<exists>st'. API_get_type depth tree_resolver (VDict a) (VStr s) auto_alias st = (Inl RecursionError, st')
         \<and> tree_state st' \<and> scopes_stack st' = scopes_stack st"
proof (induction depth arbitrary: st a s auto_alias)
  case 0
  then show ?case by (simp add: raise_def)
next
  case (Suc depth)
  let ?gt = "API_get_type depth tree_resolver"
  let ?r = "''#/definitions/tree''"
  let ?node = "[(''type'', VStr ''array''), (''items'', VDict 3)]"
  have da: "dict_at st a = dicts st ! a" using Suc.prems by (simp add: dict_at_def)
  consider (ref) "dicts st ! a = [(''$ref'', VStr ?r), (''definitions'', VDict 1)] \<or> dicts st ! a = [(''$ref'', VStr ?r)]"
    | (node) "dicts st ! a = [(''definitions'', VDict 1), (''type'', VStr ''array''), (''items'', VDict 3)]
               \<or> dicts st ! a = ?node"
    using Suc.prems(3) by (auto simp: tree_schemas_def)
  then have internal:
    "\<exists>st'. API__get_type_internal ?gt tree_resolver a (VStr s) st = (Inl RecursionError, st')
         \<and> tree_state st' \<and> scopes_stack st' = scopes_stack st"
  proof cases
    case ref
    define copy where "copy = dict_update (dict_del (dict_at st a) ''$ref'') (dict_at st 2)"
    define st1 where "st1 = st\<lparr>scopes_stack := scopes_stack st @ [VStr ?r], dicts := dicts st @ [copy]\<rparr>"
    have d2: "dict_at st 2 = ?node" and len: "2 < length (dicts st)" and cache: "ref_type st = []"
      using Suc.prems(1) by (simp_all add: tree_state_def dict_at_def)
    have copy: "copy \<in> set tree_schemas"
      using ref by (auto simp: copy_def da d2 dict_del_def dict_update_def tree_schemas_def)
    have st1: "tree_state st1" "length (dicts st) < length (dicts st1)"
       "dicts st1 ! length (dicts st) \<in> set tree_schemas"
      using Suc.prems(1) copy by (auto simp: st1_def tree_state_def nth_append)
    from Suc.IH[OF st1, of s True] obtain st2 where
      nested: "?gt (VDict (length (dicts st))) (VStr s) True st1 = (Inl RecursionError, st2)"
      and st2: "tree_state st2" "scopes_stack st2 = scopes_stack st1"
      by blast
    have h: "\<not> dict_contains (dict_at st a) ''if''" "dict_contains (dict_at st a) ''$ref''"
       "dict_get (dict_at st a) ''$ref'' = Some (VStr ?r)"
       "get_default (dict_at st a) ''title'' (VStr s) = VStr s"
       "\<not> truthy st (get_default (dict_at st a) ''$id'' (VStr []))"
      using ref by (auto simp: da dict_contains_def dict_get_def get_default_def truthy_def)
    have res: "resolver_has_resolve tree_resolver"
       "resolver_resolve tree_resolver (scopes_stack st) ?r = Inr (?r, VDict 2)"
      by (simp_all add: tree_resolver_def)
    have "API__get_type_internal ?gt tree_resolver a (VStr s) st
          = and_then (try_finally (?gt (VDict (length (dicts st))) (VStr s) True) pop_scope)
              (\<lambda>type_obj. and_then (if ?r \<noteq> [] then cache_store ?r type_obj else return ())
                 (\<lambda>u. return type_obj)) st1"
      unfolding internal_ref[OF h(1,2)] st1_def copy_def
      using h(4,5) ref_miss[OF h(3) _ _ res len, of ?gt "VStr s"] cache
      by simp
    also have "\<dots> = (Inl RecursionError, st2\<lparr>scopes_stack := scopes_stack st\<rparr>)"
      using nested st2 by (simp add: and_then_def try_finally_def pop_scope_def st1_def)
    finally show ?thesis using st2 by (auto simp: tree_state_def)
  next
    case node
    define st1 where "st1 = st\<lparr>types := types st @ [\<lparr>instance_of = NativeType ''List'' ''typing'', u_comments = None\<rparr>]\<rparr>"
    have st1: "tree_state st1" "3 < length (dicts st1)" "dicts st1 ! 3 \<in> set tree_schemas"
      using Suc.prems(1) by (auto simp: st1_def tree_state_def tree_schemas_def)
    from Suc.IH[OF st1, of "s @ '' item''" True] obtain st2 where
      nested: "?gt (VDict 3) (VStr (s @ '' item'')) True st1 = (Inl RecursionError, st2)"
      and st2: "tree_state st2" "scopes_stack st2 = scopes_stack st1"
      by blast
    have h: "\<not> dict_contains (dict_at st a) ''if''" "\<not> dict_contains (dict_at st a) ''$ref''"
       "\<not> dict_contains (dict_at st a) ''const''" "dict_get (dict_at st a) ''type'' = Some (VStr ''array'')"
       "\<not> dict_contains (dict_at st a) ''enum''"
       "dict_get (dict_at st a) ''items'' = Some (VDict 3)"
       "get_default (dict_at st a) ''title'' (VStr s) = VStr s"
      using node by (auto simp: da dict_contains_def dict_get_def get_default_def)
    have "API__get_type_internal ?gt tree_resolver a (VStr s) st
          = and_then (?gt (VDict 3) (VStr (s @ '' item'')) True)
              (\<lambda>t. new_type (CombinedType (length (types st)) [t])) st1"
      unfolding internal_single_type[OF h(1-4)] get_type_no_enum[OF h(5)] h(7) st1_def
      by (simp add: call_handler_def array_items_dict[OF h(6)])
    also have "\<dots> = (Inl RecursionError, st2)"
      using nested by (simp add: and_then_Inl)
    finally show ?thesis using st2 by (auto simp: st1_def)
  qed
  then obtain st' where "API__get_type_internal ?gt tree_resolver a (VStr s) st = (Inl RecursionError, st')"
     and "tree_state st'" "scopes_stack st' = scopes_stack st" by blast
  then show ?case
    using get_type_call_Inl[of ?gt tree_resolver a "VStr s" st RecursionError st' auto_alias] by simp
qed


lemma map_of_dict_set: "map_of (dict_set c k v) k = Some v"
  by (induction c) auto

lemma ref_stores:
  assumes "dict_get (dict_at st a) ''$ref'' = Some (VStr r)"
    and "r \<noteq> ''#''" and "r \<noteq> []"
    and "APIv4_ref gt e a proposed_name st = (Inr t, st')"
  shows "map_of (ref_type st') r = Some t"
proof (cases "map_of (ref_type st) r")
  case (Some t0)
  with assms ref_hit[OF assms(1,2) Some, of gt e proposed_name] show ?thesis by auto
next
  case None
  define st0 where "st0 = st\<lparr>dicts := dicts st @ [dict_del (dict_at st a) ''$ref'']\<rparr>"
  define miss where "miss =
       (if \<not> resolver_has_resolve e
        then resolving e r (\<lambda>resolved.
               and_then (update_dict (length (dicts st)) resolved) (\<lambda>u.
                 gt (VDict (length (dicts st))) (VStr ''Base'') True))
        else and_then (resolve e r) (\<lambda>found.
             and_then (push_scope (VStr (fst found))) (\<lambda>u.
               try_finally
                 (and_then (update_dict (length (dicts st)) (snd found)) (\<lambda>u.
                    gt (VDict (length (dicts st))) proposed_name True))
                 pop_scope)))"
  have "APIv4_ref gt e a proposed_name st
          = and_then miss (\<lambda>type_obj. and_then (cache_store r type_obj) (\<lambda>u. return type_obj)) st0"
    using assms(1-3) None by (simp add: APIv4_ref_def miss_def st0_def)
  with assms(4) obtain x st1 where "miss st0 = (Inr x, st1)"
    and "and_then (cache_store r x) (\<lambda>u. return x) st1 = (Inr t, st')"
    by (auto elim: and_then_InrE)
  then show ?thesis
    by (auto simp: and_then_def cache_store_def return_def map_of_dict_set)
qed



lemma mutual_recursion:
  "mutual_state st \<Longrightarrow> a < length (dicts st) \<Longrightarrow> dicts st ! a \<in> set mutual_schemas \<Longrightarrow>
   \<exists>st'. API_get_type depth mutual_resolver (VDict a) (VStr s) auto_alias st = (Inl RecursionError, st')
         \<and> mutual_state st' \<and> scopes_stack st' = scopes_stack st"
proof (induction depth arbitrary: st a s auto_alias)
  case 0
  then show ?case by (simp add: raise_def)
next
  case (Suc depth)
  let ?gt = "API_get_type depth mutual_resolver"
  have da: "dict_at st a = dicts st ! a" using Suc.prems by (simp add: dict_at_def)
  consider (ref) r and target :: nat where
      "dicts st ! a = [(''$ref'', VStr ''#/definitions/a''), (''definitions'', VDict 1)] \<and> r = ''#/definitions/a''
         \<or> dicts st ! a = [(''$ref'', VStr r)]"
      "r = ''#/definitions/a'' \<and> target = 2 \<or> r = ''#/definitions/b'' \<and> target = 4"
    | (node) i where
      "dicts st ! a = [(''definitions'', VDict 1), (''type'', VStr ''array''), (''items'', VDict i)]
         \<or> dicts st ! a = [(''type'', VStr ''array''), (''items'', VDict i)]"
      "i = 3 \<or> i = 5"
    using Suc.prems(3) by (auto simp: mutual_schemas_def)
  then have internal:
    "\<exists>st'. API__get_type_internal ?gt mutual_resolver a (VStr s) st = (Inl RecursionError, st')
         \<and> mutual_state st' \<and> scopes_stack st' = scopes_stack st"
  proof cases
    case ref
    define copy where "copy = dict_update (dict_del (dict_at st a) ''$ref'') (dict_at st target)"
    define st1 where "st1 = st\<lparr>scopes_stack := scopes_stack st @ [VStr r], dicts := dicts st @ [copy]\<rparr>"
    have d2: "dict_at st 2 = [(''type'', VStr ''array''), (''items'', VDict 3)]"
      and d4: "dict_at st 4 = [(''type'', VStr ''array''), (''items'', VDict 5)]"
      and len: "target < length (dicts st)" and cache: "ref_type st = []"
      using Suc.prems(1) ref(2) by (auto simp: mutual_state_def dict_at_def)
    have copy: "copy \<in> set mutual_schemas"
      using ref by (auto simp: copy_def da d2 d4 dict_del_def dict_update_def mutual_schemas_def)
    have st1: "mutual_state st1" "length (dicts st) < length (dicts st1)"
       "dicts st1 ! length (dicts st) \<in> set mutual_schemas"
      using Suc.prems(1) copy by (auto simp: st1_def mutual_state_def nth_append)
    from Suc.IH[OF st1, of s True] obtain st2 where
      nested: "?gt (VDict (length (dicts st))) (VStr s) True st1 = (Inl RecursionError, st2)"
      and st2: "mutual_state st2" "scopes_stack st2 = scopes_stack st1"
      by blast
    have h: "\<not> dict_contains (dict_at st a) ''if''" "dict_contains (dict_at st a) ''$ref''"
       "dict_get (dict_at st a) ''$ref'' = Some (VStr r)"
       "get_default (dict_at st a) ''title'' (VStr s) = VStr s"
       "\<not> truthy st (get_default (dict_at st a) ''$id'' (VStr []))"
      using ref(1) by (auto simp: da dict_contains_def dict_get_def get_default_def truthy_def)
    have res: "resolver_has_resolve mutual_resolver"
       "resolver_resolve mutual_resolver (scopes_stack st) r = Inr (r, VDict target)"
      using ref(2) by (auto simp: mutual_resolver_def)
    have r: "r \<noteq> ''#''" "r \<noteq> []" "map_of (ref_type st) r = None"
      using ref(2) cache by auto
    have "API__get_type_internal ?gt mutual_resolver a (VStr s) st
          = and_then (try_finally (?gt (VDict (length (dicts st))) (VStr s) True) pop_scope)
              (\<lambda>type_obj. and_then (if r \<noteq> [] then cache_store r type_obj else return ())
                 (\<lambda>u. return type_obj)) st1"
      unfolding internal_ref[OF h(1,2)] st1_def copy_def
      using h(4,5) ref_miss[OF h(3) r(1,3) res len, of ?gt "VStr s"]
      by simp
    also have "\<dots> = (Inl RecursionError, st2\<lparr>scopes_stack := scopes_stack st\<rparr>)"
      using nested st2 by (simp add: and_then_def try_finally_def pop_scope_def st1_def)
    finally show ?thesis using st2 by (auto simp: mutual_state_def)
  next
    case node
    define st1 where "st1 = st\<lparr>types := types st @ [\<lparr>instance_of = NativeType ''List'' ''typing'', u_comments = None\<rparr>]\<rparr>"
    have st1: "mutual_state st1" "i < length (dicts st1)" "dicts st1 ! i \<in> set mutual_schemas"
      using Suc.prems(1) node(2) by (auto simp: st1_def mutual_state_def mutual_schemas_def)
    from Suc.IH[OF st1, of "s @ '' item''" True] obtain st2 where
      nested: "?gt (VDict i) (VStr (s @ '' item'')) True st1 = (Inl RecursionError, st2)"
      and st2: "mutual_state st2" "scopes_stack st2 = scopes_stack st1"
      by blast
    have h: "\<not> dict_contains (dict_at st a) ''if''" "\<not> dict_contains (dict_at st a) ''$ref''"
       "\<not> dict_contains (dict_at st a) ''const''" "dict_get (dict_at st a) ''type'' = Some (VStr ''array'')"
       "\<not> dict_contains (dict_at st a) ''enum''"
       "dict_get (dict_at st a) ''items'' = Some (VDict i)"
       "get_default (dict_at st a) ''title'' (VStr s) = VStr s"
      using node(1) by (auto simp: da dict_contains_def dict_get_def get_default_def)
    have "API__get_type_internal ?gt mutual_resolver a (VStr s) st
          = and_then (?gt (VDict i) (VStr (s @ '' item'')) True)
              (\<lambda>t. new_type (CombinedType (length (types st)) [t])) st1"
      unfolding internal_single_type[OF h(1-4)] get_type_no_enum[OF h(5)] h(7) st1_def
      by (simp add: call_handler_def array_items_dict[OF h(6)])
    also have "\<dots> = (Inl RecursionError, st2)"
      using nested by (simp add: and_then_Inl)
    finally show ?thesis using st2 by (auto simp: st1_def)
  qed
  then obtain st' where "API__get_type_internal ?gt mutual_resolver a (VStr s) st = (Inl RecursionError, st')"
     and "mutual_state st'" "scopes_stack st' = scopes_stack st" by blast
  then show ?case
    using get_type_call_Inl[of ?gt mutual_resolver a "VStr s" st RecursionError st' auto_alias] by simp
qed


subsection \<open>Runs on the example documents\<close>

lemma id_const_run:
  "API_get_type 1 no_resolver (VDict 0) (VStr ''Base'') True (fresh_engine id_const)
     = (Inr 0, \<lparr>dicts = id_const,
                types = [\<lparr>instance_of = LiteralType (VInt 1), u_comments = Some []\<rparr>],
                scopes_stack = [VStr [], VStr ''http://example.com/a''], ref_type = []\<rparr>)"
  by code_simp

lemma id_bad_ref_run:
  "API_get_type 1 no_resolver (VDict 0) (VStr ''Base'') True (fresh_engine id_bad_ref)
     = (Inl RefResolutionError,
        \<lparr>dicts = id_bad_ref @ [[(''$id'', VStr ''http://example.com/a'')]],
         types = [],
         scopes_stack = [VStr [], VStr ''http://example.com/a''], ref_type = []\<rparr>)"
  by code_simp

lemma if_then_run:
  "API_get_type 2 no_resolver (VDict 0) (VStr ''Base'') True (fresh_engine if_then)
     = (Inr 5,
        \<lparr>dicts = [[(''if'', VDict 1), (''then'', VDict 3)], [(''properties'', VDict 2)],
      [(''a'', VDict 5)], [(''properties'', VDict 4)],
      [(''b'', VDict 6), (''a'', VDict 5)], [(''type'', VStr ''integer'')],
      [(''type'', VStr ''string'')], [], [(''properties'', VDict 4)], [],
      [], [], [], []],
     types =
       [\<lparr>instance_of = NativeType ''Union'' ''typing'', u_comments = None\<rparr>,
        \<lparr>instance_of = BuiltinType ''None'',
           u_comments =
             Some [''WARNING: we get an scheam without any type'']\<rparr>,
        \<lparr>instance_of =
           TypeAlias ''_BaseThen'' 1
            [''WARNING: we get an scheam without any type''],
           u_comments = None\<rparr>,
        \<lparr>instance_of = BuiltinType ''None'',
           u_comments =
             Some [''WARNING: we get an scheam without any type'']\<rparr>,
        \<lparr>instance_of =
           TypeAlias ''_BaseElse'' 3
            [''WARNING: we get an scheam without any type''],
           u_comments = None\<rparr>,
        \<lparr>instance_of = CombinedType 0 [2, 4], u_comments = Some []\<rparr>],
     scopes_stack = [VStr []], ref_type = []\<rparr>)"
  by code_simp


lemma if_then_ref_run:
  "API_get_type 3 t_resolver (VDict 0) (VStr ''Base'') True (fresh_engine if_then_ref)
     = (Inr 5,
        \<lparr>dicts =
           [[(''if'', VDict 1), (''then'', VDict 3), (''definitions'', VDict 8)],
            [(''properties'', VDict 2)], [(''a'', VDict 5)],
            [(''$ref'', VStr ''#/definitions/t''), (''properties'', VDict 6)],
            [(''properties'', VDict 6)], [(''type'', VStr ''integer'')],
            [(''b'', VDict 7), (''a'', VDict 5)], [(''type'', VStr ''string'')],
            [(''t'', VDict 4)], [(''definitions'', VDict 8)],
            [(''definitions'', VDict 8), (''$ref'', VStr ''#/definitions/t''),
             (''properties'', VDict 6)],
            [], [], [], [(''definitions'', VDict 8)], [],
            [(''definitions'', VDict 8), (''properties'', VDict 6)]],
         types =
           [\<lparr>instance_of = NativeType ''Union'' ''typing'', u_comments = None\<rparr>,
            \<lparr>instance_of = BuiltinType ''None'',
               u_comments = Some [''WARNING: we get an scheam without any type'']\<rparr>,
            \<lparr>instance_of = TypeAlias ''_BaseThen'' 1 [''WARNING: we get an scheam without any type''],
               u_comments = Some []\<rparr>,
            \<lparr>instance_of = BuiltinType ''None'',
               u_comments = Some [''WARNING: we get an scheam without any type'']\<rparr>,
            \<lparr>instance_of = TypeAlias ''_BaseElse'' 3 [''WARNING: we get an scheam without any type''],
               u_comments = None\<rparr>,
            \<lparr>instance_of = CombinedType 0 [2, 4], u_comments = Some []\<rparr>],
         scopes_stack = [VStr []], ref_type = [(''#/definitions/t'', 2)]\<rparr>)"
  by code_simp

lemma two_spellings_run:
  "API_get_type 3 root_json_resolver (VDict 0) (VStr ''Base'') True root_json_engine
     = (Inr 3,
        \<lparr>dicts = two_spellings @ [[(''type'', VStr ''string'')], [(''type'', VStr ''string'')]],
         types =
           [\<lparr>instance_of = BuiltinType ''str'', u_comments = Some []\<rparr>,
            \<lparr>instance_of = BuiltinType ''str'', u_comments = Some []\<rparr>,
            \<lparr>instance_of = NativeType ''Union'' ''typing'', u_comments = None\<rparr>,
            \<lparr>instance_of = CombinedType 2 [0, 1], u_comments = Some []\<rparr>],
         scopes_stack = [VStr ''http://example.com/root.json''],
         ref_type = [(''#/definitions/s'', 0), (''root.json#/definitions/s'', 1)]\<rparr>)"
  by code_simp

lemma const_before_array_run:
  "API_get_type 1 no_resolver (VDict 0) (VStr ''Base'') True (fresh_engine unsupported_not_reached)
     = (Inr 0, \<lparr>dicts = unsupported_not_reached,
                types = [\<lparr>instance_of = LiteralType (VInt 1), u_comments = Some []\<rparr>],
                scopes_stack = [VStr []], ref_type = []\<rparr>)"
  by code_simp

lemma enum_before_tuple_run:
  "API_get_type 1 no_resolver (VDict 1) (VStr ''Base'') True (fresh_engine unsupported_not_reached)
     = (Inr 0, \<lparr>dicts = unsupported_not_reached,
                types = [\<lparr>instance_of = TypeEnum ''_Base'' [VStr ''a''] [], u_comments = Some []\<rparr>],
                scopes_stack = [VStr []], ref_type = []\<rparr>)"
  by code_simp

lemma then_without_properties_run:
  "API_get_type 1 no_resolver (VDict 0) (VStr ''Base'') True (fresh_engine then_without_properties)
     = (Inl AssertionError,
        \<lparr>dicts = then_without_properties
                   @ [[], [(''required'', VList [VStr ''a'']), (''properties'', VDict 8)], [], []],
         types = [], scopes_stack = [VStr []], ref_type = []\<rparr>)"
  by code_simp

lemma ref_and_conditional_first_run:
  "API_get_type 4 t_resolver (VDict 0) (VStr ''Base'') True (fresh_engine ref_and_conditional)
     = (Inr 7,
        \<lparr>dicts = ref_and_conditional_after @
           [[(''type'', VStr ''object''), (''properties'', VDict 7)], [],
            [(''$ref'', VStr ''#/definitions/t''), (''type'', VStr ''object''), (''properties'', VDict 7)],
            [], [], [], [], [],
            [(''type'', VStr ''object''), (''properties'', VDict 7)]],
         types =
           [\<lparr>instance_of = BuiltinType ''str'', u_comments = Some []\<rparr>,
            \<lparr>instance_of = TypedDictType ''_BaseAnyof0'' [(''b'', 0)] [],
               u_comments = Some [''WARNING: The required are not correctly taken in account,'',
                                  ''See: https://www.python.org/dev/peps/pep-0655/'']\<rparr>,
            \<lparr>instance_of = NativeType ''Union'' ''typing'', u_comments = None\<rparr>,
            \<lparr>instance_of = BuiltinType ''None'',
               u_comments = Some [''WARNING: we get an scheam without any type'']\<rparr>,
            \<lparr>instance_of = TypeAlias ''_BaseAnyof1Else'' 3 [''WARNING: we get an scheam without any type''],
               u_comments = None\<rparr>,
            \<lparr>instance_of = CombinedType 2 [1, 4], u_comments = Some []\<rparr>,
            \<lparr>instance_of = NativeType ''Union'' ''typing'', u_comments = None\<rparr>,
            \<lparr>instance_of = CombinedType 6 [1, 5], u_comments = Some []\<rparr>],
         scopes_stack = [VStr []], ref_type = [(''#/definitions/t'', 1)]\<rparr>)"
  by code_simp

lemma ref_and_conditional_second_run:
  "API_get_type 4 t_resolver (VDict 0) (VStr ''Base'') True
     (fresh_engine (ref_and_conditional_after @
           [[(''type'', VStr ''object''), (''properties'', VDict 7)], [],
            [(''$ref'', VStr ''#/definitions/t''), (''type'', VStr ''object''), (''properties'', VDict 7)],
            [], [], [], [], [],
            [(''type'', VStr ''object''), (''properties'', VDict 7)]]))
     = (Inr 8,
        \<lparr>dicts = ref_and_conditional_after @
           [[(''type'', VStr ''object''), (''properties'', VDict 7)], [],
            [(''$ref'', VStr ''#/definitions/t''), (''type'', VStr ''object''), (''properties'', VDict 7)],
            [], [], [], [], [],
            [(''type'', VStr ''object''), (''properties'', VDict 7)],
            [(''type'', VStr ''object''), (''properties'', VDict 7)], [],
            [(''$ref'', VStr ''#/definitions/t''), (''type'', VStr ''object''), (''properties'', VDict 7)],
            [], [], [], [], [],
            [(''type'', VStr ''object''), (''properties'', VDict 7)]],
         types =
           [\<lparr>instance_of = BuiltinType ''str'', u_comments = Some []\<rparr>,
            \<lparr>instance_of = BuiltinType ''int'', u_comments = Some []\<rparr>,
            \<lparr>instance_of = TypedDictType ''_BaseAnyof0'' [(''b'', 0), (''a'', 1)] [],
               u_comments = Some [''WARNING: The required are not correctly taken in account,'',
                                  ''See: https://www.python.org/dev/peps/pep-0655/'']\<rparr>,
            \<lparr>instance_of = NativeType ''Union'' ''typing'', u_comments = None\<rparr>,
            \<lparr>instance_of = BuiltinType ''None'',
               u_comments = Some [''WARNING: we get an scheam without any type'']\<rparr>,
            \<lparr>instance_of = TypeAlias ''_BaseAnyof1Else'' 4 [''WARNING: we get an scheam without any type''],
               u_comments = None\<rparr>,
            \<lparr>instance_of = CombinedType 3 [2, 5], u_comments = Some []\<rparr>,
            \<lparr>instance_of = NativeType ''Union'' ''typing'', u_comments = None\<rparr>,
            \<lparr>instance_of = CombinedType 7 [2, 6], u_comments = Some []\<rparr>],
         scopes_stack = [VStr []], ref_type = [(''#/definitions/t'', 2)]\<rparr>)"
  by code_simp


section \<open>The reference cache (C1)\<close>

text \<open>
  C1, as stated: each reference URI is translated at most once, and every lookup after the
  first returns the cached Type, also a lookup made while the first translation of that
  reference is still running, so that the translation of a cyclic reference graph
  terminates. Two runs of the source show otherwise.
  The source stores the Type only after the translation of the referenced schema has
  returned. On the recursive definition "a tree is an array of trees" the lookups made
  from inside that translation miss and the translation produces no Type: at the depth
  limit of the interpreter (1000 nested calls by default) it ends in \<^verbatim>\<open>RecursionError\<close>, and
  nothing has been cached.
  The source looks the cache up under the \<^verbatim>\<open>$ref\<close> string as it is written in the schema, not
  under the URI it resolves to: in the document \<^verbatim>\<open>http://example.com/root.json\<close> the
  references \<^verbatim>\<open>#/definitions/s\<close> and \<^verbatim>\<open>root.json#/definitions/s\<close> resolve to one URI, which is
  translated twice, into the two Types at the addresses 0 and 1, under two cache entries.
\<close>

theorem reference_translated_again:
  "fst (API_get_type 1000 tree_resolver (VDict 0) (VStr ''Base'') True (fresh_engine tree))
     = Inl RecursionError
   \<and> ref_type (snd (API_get_type 1000 tree_resolver (VDict 0) (VStr ''Base'') True (fresh_engine tree)))
     = []
   \<and> API_get_type 3 root_json_resolver (VDict 0) (VStr ''Base'') True root_json_engine
     = (Inr 3,
        \<lparr>dicts = two_spellings @ [[(''type'', VStr ''string'')], [(''type'', VStr ''string'')]],
         types =
           [\<lparr>instance_of = BuiltinType ''str'', u_comments = Some []\<rparr>,
            \<lparr>instance_of = BuiltinType ''str'', u_comments = Some []\<rparr>,
            \<lparr>instance_of = NativeType ''Union'' ''typing'', u_comments = None\<rparr>,
            \<lparr>instance_of = CombinedType 2 [0, 1], u_comments = Some []\<rparr>],
         scopes_stack = [VStr ''http://example.com/root.json''],
         ref_type = [(''#/definitions/s'', 0), (''root.json#/definitions/s'', 1)]\<rparr>)"
proof -
  have "tree_state (fresh_engine tree)" "0 < length (dicts (fresh_engine tree))"
       "dicts (fresh_engine tree) ! 0 \<in> set tree_schemas"
    by (simp_all add: tree_state_def fresh_engine_def tree_def tree_schemas_def)
  from tree_recursion[OF this, of 1000 "''Base''" True]
  have "fst (API_get_type 1000 tree_resolver (VDict 0) (VStr ''Base'') True (fresh_engine tree))
          = Inl RecursionError
        \<and> ref_type (snd (API_get_type 1000 tree_resolver (VDict 0) (VStr ''Base'') True (fresh_engine tree)))
          = []"
    by (auto simp: tree_state_def)
  with two_spellings_run show ?thesis by simp
qed

text \<open>
  C1, amended. The cache is keyed by the \<^verbatim>\<open>$ref\<close> string as written. For a schema whose
  \<^verbatim>\<open>$ref\<close> is a string \<^verbatim>\<open>r\<close> other than \<^verbatim>\<open>"#"\<close>:
  (1) when the cache holds \<^verbatim>\<open>r\<close>, the ref handler returns the cached Type, the same address
  for every call site, and does nothing else than copy the schema: the referenced schema
  is not translated again;
  (2) when \<^verbatim>\<open>r\<close> is not the empty string, every return of the ref handler leaves the
  returned Type in the cache under \<^verbatim>\<open>r\<close>;
  (3) on a miss the translation of the resolved schema starts with the cache as it was,
  without an entry for \<^verbatim>\<open>r\<close>, and the entry is written after that translation has returned.
  So the cache does not make the translation of a cyclic reference graph terminate:
  (4) on the recursive definition "a tree is an array of trees", whatever the depth limit,
  the call ends in \<^verbatim>\<open>RecursionError\<close> with an empty cache;
  (5) and so it does on the two definitions that refer to each other, "an a is an array
  of b, a b is an array of a".
  (6) Two spellings of one URI are two keys: the definition \<^verbatim>\<open>s\<close> of the document
  \<^verbatim>\<open>http://example.com/root.json\<close> is translated once for each of them, into two Types.
\<close>

theorem ref_cached_after_translation:
  assumes "dict_get (dict_at st a) ''$ref'' = Some (VStr r)"
    and "r \<noteq> ''#''"
  shows "(\<forall>t. map_of (ref_type st) r = Some t \<longrightarrow>
            APIv4_ref gt e a proposed_name st
              = (Inr t, st\<lparr>dicts := dicts st @ [dict_del (dict_at st a) ''$ref'']\<rparr>))
       \<and> (\<forall>t st'. r \<noteq> [] \<and> APIv4_ref gt e a proposed_name st = (Inr t, st') \<longrightarrow>
            map_of (ref_type st') r = Some t)
       \<and> (\<forall>url target.
            map_of (ref_type st) r = None \<and> resolver_has_resolve e
            \<and> resolver_resolve e (scopes_stack st) r = Inr (url, VDict target)
            \<and> target < length (dicts st) \<longrightarrow>
            APIv4_ref gt e a proposed_name st
              = and_then (try_finally (gt (VDict (length (dicts st))) proposed_name True) pop_scope)
                  (\<lambda>type_obj. and_then (if r \<noteq> [] then cache_store r type_obj else return ())
                     (\<lambda>u. return type_obj))
                  (st\<lparr>scopes_stack := scopes_stack st @ [VStr url],
                      dicts := dicts st @ [dict_update (dict_del (dict_at st a) ''$ref'')
                                             (dict_at st target)]\<rparr>))
       \<and> (\<forall>depth. \<exists>st'.
            API_get_type depth tree_resolver (VDict 0) (VStr ''Base'') True (fresh_engine tree)
              = (Inl RecursionError, st')
            \<and> ref_type st' = [])
       \<and> (\<forall>depth. \<exists>st'.
            API_get_type depth mutual_resolver (VDict 0) (VStr ''Base'') True (fresh_engine mutual)
              = (Inl RecursionError, st')
            \<and> ref_type st' = [])
       \<and> ref_type (snd (API_get_type 3 root_json_resolver (VDict 0) (VStr ''Base'') True root_json_engine))
            = [(''#/definitions/s'', 0), (''root.json#/definitions/s'', 1)]"
proof (intro conjI allI impI)
  fix t
  assume "map_of (ref_type st) r = Some t"
  then show "APIv4_ref gt e a proposed_name st
              = (Inr t, st\<lparr>dicts := dicts st @ [dict_del (dict_at st a) ''$ref'']\<rparr>)"
    by (rule ref_hit[OF assms])
next
  fix t st'
  assume "r \<noteq> [] \<and> APIv4_ref gt e a proposed_name st = (Inr t, st')"
  then show "map_of (ref_type st') r = Some t"
    using ref_stores[OF assms] by blast
next
  fix url target
  assume "map_of (ref_type st) r = None \<and> resolver_has_resolve e
            \<and> resolver_resolve e (scopes_stack st) r = Inr (url, VDict target)
            \<and> target < length (dicts st)"
  then show "APIv4_ref gt e a proposed_name st
              = and_then (try_finally (gt (VDict (length (dicts st))) proposed_name True) pop_scope)
                  (\<lambda>type_obj. and_then (if r \<noteq> [] then cache_store r type_obj else return ())
                     (\<lambda>u. return type_obj))
                  (st\<lparr>scopes_stack := scopes_stack st @ [VStr url],
                      dicts := dicts st @ [dict_update (dict_del (dict_at st a) ''$ref'')
                                             (dict_at st target)]\<rparr>)"
    using ref_miss[OF assms] by blast
next
  fix depth
  have "tree_state (fresh_engine tree)" "0 < length (dicts (fresh_engine tree))"
       "dicts (fresh_engine tree) ! 0 \<in> set tree_schemas"
    by (simp_all add: tree_state_def fresh_engine_def tree_def tree_schemas_def)
  from tree_recursion[OF this, of depth "''Base''" True]
  show "\<exists>st'. API_get_type depth tree_resolver (VDict 0) (VStr ''Base'') True (fresh_engine tree)
              = (Inl RecursionError, st')
            \<and> ref_type st' = []"
    by (auto simp: tree_state_def)
next
  fix depth
  have "mutual_state (fresh_engine mutual)" "0 < length (dicts (fresh_engine mutual))"
       "dicts (fresh_engine mutual) ! 0 \<in> set mutual_schemas"
    by (simp_all add: mutual_state_def fresh_engine_def mutual_def mutual_schemas_def)
  from mutual_recursion[OF this, of depth "''Base''" True]
  show "\<exists>st'. API_get_type depth mutual_resolver (VDict 0) (VStr ''Base'') True (fresh_engine mutual)
              = (Inl RecursionError, st')
            \<and> ref_type st' = []"
    by (auto simp: mutual_state_def)
next
  show "ref_type (snd (API_get_type 3 root_json_resolver (VDict 0) (VStr ''Base'') True root_json_engine))
            = [(''#/definitions/s'', 0), (''root.json#/definitions/s'', 1)]"
    unfolding two_spellings_run by simp
qed

text \<open>
  The facts on the document that uses one definition twice. The first call site
  (address 1) is translated by a fresh engine to the Type at address 0, which is in the
  cache when the handler returns; the handler then returns the same address 0 for the
  second call site (address 2) without translating anything; and the translation for the
  first call site had started with an empty cache.
\<close>

theorem ref_cached_after_translation_witness:
  "APIv4_ref (API_get_type 1 s_resolver) s_resolver 1 (VStr ''Base anyof0'') (fresh_engine shared)
     = (Inr 0, shared_after_first)
   \<and> map_of (ref_type shared_after_first) ''#/definitions/s'' = Some 0
   \<and> APIv4_ref (API_get_type 1 s_resolver) s_resolver 2 (VStr ''Base anyof1'') shared_after_first
     = (Inr 0, shared_after_first\<lparr>dicts := dicts shared_after_first @ [[]]\<rparr>)
   \<and> APIv4_ref (API_get_type 1 s_resolver) s_resolver 1 (VStr ''Base anyof0'') (fresh_engine shared)
     = and_then (try_finally (API_get_type 1 s_resolver (VDict 5) (VStr ''Base anyof0'') True) pop_scope)
         (\<lambda>type_obj. and_then (cache_store ''#/definitions/s'' type_obj) (\<lambda>u. return type_obj))
         ((fresh_engine shared)\<lparr>scopes_stack := [VStr [], VStr ''#/definitions/s''],
             dicts := shared @ [[(''type'', VStr ''string'')]]\<rparr>)"
proof -
  let ?r = "''#/definitions/s''"
  let ?gt = "API_get_type 1 s_resolver"
  let ?st = "fresh_engine shared"
  have a1: "dict_get (dict_at ?st 1) ''$ref'' = Some (VStr ?r)"
    and a2: "dict_get (dict_at shared_after_first 2) ''$ref'' = Some (VStr ?r)"
    and ne: "?r \<noteq> ''#''" "?r \<noteq> []"
    by (simp_all add: shared_after_first_def fresh_engine_def shared_def dict_at_def dict_get_def)
  note A = ref_cached_after_translation[OF a1 ne(1), of ?gt s_resolver "VStr ''Base anyof0''"]
  note B = ref_cached_after_translation[OF a2 ne(1), of ?gt s_resolver "VStr ''Base anyof1''"]
  have first: "APIv4_ref ?gt s_resolver 1 (VStr ''Base anyof0'') ?st = (Inr 0, shared_after_first)"
    by code_simp
  from A ne(2) first have stored: "map_of (ref_type shared_after_first) ?r = Some 0"
    by blast
  have copy: "dict_del (dict_at shared_after_first 2) ''$ref'' = []"
    by (simp add: shared_after_first_def shared_def dict_at_def dict_del_def)
  from B stored have second:
    "APIv4_ref ?gt s_resolver 2 (VStr ''Base anyof1'') shared_after_first
       = (Inr 0, shared_after_first\<lparr>dicts := dicts shared_after_first @ [[]]\<rparr>)"
    unfolding copy[symmetric] by blast
  have miss: "map_of (ref_type ?st) ?r = None"
       "resolver_has_resolve s_resolver"
       "resolver_resolve s_resolver (scopes_stack ?st) ?r = Inr (?r, VDict 4)"
       "4 < length (dicts ?st)"
    by (simp_all add: fresh_engine_def s_resolver_def shared_def)
  have st1: "?st\<lparr>scopes_stack := scopes_stack ?st @ [VStr ?r],
                dicts := dicts ?st @ [dict_update (dict_del (dict_at ?st 1) ''$ref'') (dict_at ?st 4)]\<rparr>
             = ?st\<lparr>scopes_stack := [VStr [], VStr ?r],
                 dicts := shared @ [[(''type'', VStr ''string'')]]\<rparr>"
       "length (dicts ?st) = 5"
    by (simp_all add: fresh_engine_def shared_def dict_at_def dict_del_def dict_update_def)
  from A miss have third:
    "APIv4_ref ?gt s_resolver 1 (VStr ''Base anyof0'') ?st
     = and_then (try_finally (?gt (VDict (length (dicts ?st))) (VStr ''Base anyof0'') True) pop_scope)
         (\<lambda>type_obj. and_then (if ?r \<noteq> [] then cache_store ?r type_obj else return ())
            (\<lambda>u. return type_obj))
         (?st\<lparr>scopes_stack := scopes_stack ?st @ [VStr ?r],
                dicts := dicts ?st @ [dict_update (dict_del (dict_at ?st 1) ''$ref'') (dict_at ?st 4)]\<rparr>)"
    by blast
  have third': "APIv4_ref ?gt s_resolver 1 (VStr ''Base anyof0'') ?st
     = and_then (try_finally (?gt (VDict 5) (VStr ''Base anyof0'') True) pop_scope)
         (\<lambda>type_obj. and_then (cache_store ?r type_obj) (\<lambda>u. return type_obj))
         (?st\<lparr>scopes_stack := [VStr [], VStr ?r],
             dicts := shared @ [[(''type'', VStr ''string'')]]\<rparr>)"
    unfolding third st1 by simp
  from first stored second third' show ?thesis by (intro conjI)
qed


section \<open>The scope of \<^verbatim>\<open>$id\<close> (C2)\<close>

text \<open>
  C2 says that the scope pushed for \<^verbatim>\<open>$id\<close> is popped on every exit of the node's
  processing, so that the depth of the resolver's stack is the same after a translation
  as before. The source pops in one place only, after the dispatch on \<^verbatim>\<open>if\<close>, \<^verbatim>\<open>$ref\<close>,
  \<^verbatim>\<open>const\<close>, a list of types and the keys tried without a type; each of those branches
  returns before it, and nothing pops when an exception passes through. On
  \<^verbatim>\<open>{"$id": "http://example.com/a", "const": 1}\<close> the call returns the literal and leaves
  the stack one deeper; on \<^verbatim>\<open>{"$id": "http://example.com/a", "$ref": "#/nowhere"}\<close> the
  resolver's error propagates and the stack is one deeper as well.
\<close>

theorem scope_left_pushed:
  "fst (API_get_type 1 no_resolver (VDict 0) (VStr ''Base'') True (fresh_engine id_const)) = Inr 0
   \<and> length (scopes_stack (fresh_engine id_const)) = 1
   \<and> scopes_stack (snd (API_get_type 1 no_resolver (VDict 0) (VStr ''Base'') True (fresh_engine id_const)))
       = [VStr [], VStr ''http://example.com/a'']
   \<and> fst (API_get_type 1 no_resolver (VDict 0) (VStr ''Base'') True (fresh_engine id_bad_ref))
       = Inl RefResolutionError
   \<and> length (scopes_stack (fresh_engine id_bad_ref)) = 1
   \<and> scopes_stack (snd (API_get_type 1 no_resolver (VDict 0) (VStr ''Base'') True (fresh_engine id_bad_ref)))
       = [VStr [], VStr ''http://example.com/a'']"
  unfolding id_const_run id_bad_ref_run by (simp add: fresh_engine_def)


section \<open>Writes to the input document (C3)\<close>

text \<open>
  C3 says that \<^verbatim>\<open>get_type\<close> leaves the input mapping and all its sub-mappings as they
  were. In the \<^verbatim>\<open>if\<close> branch the source builds \<open>then_schema\<close> as a shallow copy, so its
  \<^verbatim>\<open>properties\<close> value is the very mapping of the input, and then updates that mapping
  with the properties of \<^verbatim>\<open>if\<close>; and \<^verbatim>\<open>_resolve_ref\<close> updates the sub-schema it is given
  with the resolved mapping. On
  \<^verbatim>\<open>{"if": {"properties": {"a": ...}}, "then": {"properties": {"b": ...}}}\<close> the call
  returns, and the \<^verbatim>\<open>properties\<close> mapping of \<^verbatim>\<open>then\<close> (address 4), which held only
  \<^verbatim>\<open>b\<close>, holds \<^verbatim>\<open>b\<close> and \<^verbatim>\<open>a\<close> afterwards. On
  \<^verbatim>\<open>{"if": {"properties": {"a": ...}}, "then": {"$ref": "#/definitions/t"}, ...}\<close> the
  call returns, the \<^verbatim>\<open>then\<close> sub-schema (address 3) has gained the key \<^verbatim>\<open>properties\<close> of
  the definition, and the properties of the definition (address 6) have gained \<^verbatim>\<open>a\<close>.
\<close>

theorem input_document_mutated:
  "fst (API_get_type 2 no_resolver (VDict 0) (VStr ''Base'') True (fresh_engine if_then)) = Inr 5
   \<and> dict_at (fresh_engine if_then) 4 = [(''b'', VDict 6)]
   \<and> dict_at (snd (API_get_type 2 no_resolver (VDict 0) (VStr ''Base'') True (fresh_engine if_then))) 4
       = [(''b'', VDict 6), (''a'', VDict 5)]
   \<and> fst (API_get_type 3 t_resolver (VDict 0) (VStr ''Base'') True (fresh_engine if_then_ref)) = Inr 5
   \<and> dict_at (fresh_engine if_then_ref) 3 = [(''$ref'', VStr ''#/definitions/t'')]
   \<and> dict_at (snd (API_get_type 3 t_resolver (VDict 0) (VStr ''Base'') True (fresh_engine if_then_ref))) 3
       = [(''$ref'', VStr ''#/definitions/t''), (''properties'', VDict 6)]
   \<and> dict_at (fresh_engine if_then_ref) 6 = [(''b'', VDict 7)]
   \<and> dict_at (snd (API_get_type 3 t_resolver (VDict 0) (VStr ''Base'') True (fresh_engine if_then_ref))) 6
       = [(''b'', VDict 7), (''a'', VDict 5)]"
  unfolding if_then_run if_then_ref_run
  by (simp add: fresh_engine_def if_then_def if_then_ref_def dict_at_def)


section \<open>Tuples (C4)\<close>

text \<open>
  C4, as stated: for an \<^verbatim>\<open>array\<close> schema whose \<^verbatim>\<open>items\<close> is a list of n schemas the result
  is an n-ary tuple, with a warning comment exactly when \<^verbatim>\<open>minItems\<close> and \<^verbatim>\<open>maxItems\<close> do
  not both equal n; in particular a warning is attached when both keys are absent. The
  code removes \<^verbatim>\<open>None\<close> as well as n from the set of the two values before it tests the
  set, so an absent key does not warn: for three items and neither key the tuple carries no
  comment.
\<close>

theorem tuple_unpinned_no_warning:
  "APIv4_array (API_get_type 2 no_resolver) no_resolver 0 (VStr ''Base'') (fresh_engine tuple_unpinned)
     = (Inr 4, (fresh_engine tuple_unpinned)
          \<lparr>types := [\<lparr>instance_of = BuiltinType ''str'', u_comments = Some []\<rparr>,
                     \<lparr>instance_of = BuiltinType ''str'', u_comments = Some []\<rparr>,
                     \<lparr>instance_of = BuiltinType ''str'', u_comments = Some []\<rparr>,
                     \<lparr>instance_of = NativeType ''Tuple'' ''typing'', u_comments = None\<rparr>,
                     \<lparr>instance_of = CombinedType 3 [0, 1, 2], u_comments = None\<rparr>]\<rparr>)"
  by code_simp

text \<open>
  C4, amended: whenever the array handler returns for a schema whose \<^verbatim>\<open>items\<close> is a list
  of n schemas, the result is a \<^verbatim>\<open>CombinedType\<close> over \<^verbatim>\<open>NativeType("Tuple")\<close> with n
  arguments, and it carries the warning comment exactly when \<^verbatim>\<open>minItems\<close> or \<^verbatim>\<open>maxItems\<close>
  is present with a value other than \<^verbatim>\<open>None\<close> that is not equal to n; otherwise it has no
  comment. So there is no warning for \<^verbatim>\<open>minItems = maxItems = 3\<close> and three items, and
  none either when both keys are absent.
\<close>

theorem tuple_warning_iff:
  assumes "dict_get (dict_at st a) ''items'' = Some (VList items)"
    and "APIv4_array gt e a proposed_name st = (Inr t, st')"
  shows "\<exists>inner.
           length inner = length items
         \<and> instance_of (type_at st' t) = CombinedType (t - 1) inner
         \<and> instance_of (type_at st' (t - 1)) = NativeType ''Tuple'' ''typing''
         \<and> u_comments (type_at st' t) =
             (if differs (get_default (dict_at st' a) ''minItems'' VNone) (length items)
                 \<or> differs (get_default (dict_at st' a) ''maxItems'' VNone) (length items)
              then Some tuple_warning else None)"
proof -
  define after where "after = (\<lambda>inner_types.
           and_then (new_type (NativeType ''Tuple'' ''typing'')) (\<lambda>base.
           and_then (new_type (CombinedType base inner_types)) (\<lambda>type_obj.
           and_then (read_dict a) (\<lambda>d1.
           and_then (lift (arity_not_pinned (get_default d1 ''minItems'' VNone)
                             (get_default d1 ''maxItems'' VNone) (length items))) (\<lambda>warn.
             if warn
             then and_then (set_comments type_obj tuple_warning) (\<lambda>u. return type_obj)
             else return type_obj)))))"
  from assms have "and_then (for_each (\<lambda>item. gt item (VStr ''Base'') True) items) after st = (Inr t, st')"
    by (simp add: APIv4_array_def get_default_def after_def)
  then obtain inner st1 where loop: "for_each (\<lambda>item. gt item (VStr ''Base'') True) items st = (Inr inner, st1)"
     and rest: "after inner st1 = (Inr t, st')"
    by (auto elim: and_then_InrE)
  let ?mn = "get_default (dict_at st1 a) ''minItems'' VNone"
  let ?mx = "get_default (dict_at st1 a) ''maxItems'' VNone"
  let ?n = "length (types st1)"
  let ?st2 = "st1\<lparr>types := types st1 @ [\<lparr>instance_of = NativeType ''Tuple'' ''typing'', u_comments = None\<rparr>,
                 \<lparr>instance_of = CombinedType ?n inner, u_comments = None\<rparr>]\<rparr>"
  obtain warn where pin: "arity_not_pinned ?mn ?mx (length items) = Inr warn"
    using rest by (cases "arity_not_pinned ?mn ?mx (length items)") (simp_all add: after_def raise_def)
  then have warn: "warn = (differs ?mn (length items) \<or> differs ?mx (length items))"
    by (auto simp: arity_not_pinned_def split: if_splits)
  from rest pin have t: "t = Suc ?n"
    and st': "st' = (if warn then ?st2\<lparr>types := (types ?st2)[Suc ?n := (type_at ?st2 (Suc ?n))\<lparr>u_comments := Some tuple_warning\<rparr>]\<rparr> else ?st2)"
    by (auto simp: after_def return_def split: if_splits)
  have "length inner = length items" using loop by (rule for_each_length)
  moreover have "instance_of (type_at st' t) = CombinedType (t - 1) inner"
    by (simp add: t st' type_at_def nth_append)
  moreover have "instance_of (type_at st' (t - 1)) = NativeType ''Tuple'' ''typing''"
    by (simp add: t st' type_at_def nth_append)
  moreover have "dict_at st' a = dict_at st1 a"
    by (simp add: st')
  moreover have "u_comments (type_at st' t) = (if warn then Some tuple_warning else None)"
    by (simp add: t st' type_at_def nth_append)
  ultimately show ?thesis using warn by auto
qed

text \<open>Three items with \<^verbatim>\<open>minItems = maxItems = 3\<close>: a tuple of three, no comment.\<close>

theorem tuple_warning_iff_witness:
  "\<exists>inner::addr list. length inner = 3
     \<and> u_comments (type_at ((fresh_engine tuple_pinned)
          \<lparr>types := [\<lparr>instance_of = BuiltinType ''str'', u_comments = Some []\<rparr>,
                     \<lparr>instance_of = BuiltinType ''str'', u_comments = Some []\<rparr>,
                     \<lparr>instance_of = BuiltinType ''str'', u_comments = Some []\<rparr>,
                     \<lparr>instance_of = NativeType ''Tuple'' ''typing'', u_comments = None\<rparr>,
                     \<lparr>instance_of = CombinedType 3 [0, 1, 2], u_comments = None\<rparr>]\<rparr>) 4) = None"
proof -
  let ?st = "fresh_engine tuple_pinned"
  let ?st' = "?st\<lparr>types := [\<lparr>instance_of = BuiltinType ''str'', u_comments = Some []\<rparr>,
                     \<lparr>instance_of = BuiltinType ''str'', u_comments = Some []\<rparr>,
                     \<lparr>instance_of = BuiltinType ''str'', u_comments = Some []\<rparr>,
                     \<lparr>instance_of = NativeType ''Tuple'' ''typing'', u_comments = None\<rparr>,
                     \<lparr>instance_of = CombinedType 3 [0, 1, 2], u_comments = None\<rparr>]\<rparr>"
  have h1: "dict_get (dict_at ?st 0) ''items'' = Some (VList [VDict 1, VDict 1, VDict 1])"
    by (simp add: fresh_engine_def tuple_pinned_def dict_at_def dict_get_def)
  have h2: "APIv4_array (API_get_type 2 no_resolver) no_resolver 0 (VStr ''Base'') ?st = (Inr 4, ?st')"
    by code_simp
  have e1: "differs (get_default (dict_at ?st' 0) ''minItems'' VNone) (length [VDict 1, VDict 1, VDict 1]) = False"
    by (simp add: fresh_engine_def tuple_pinned_def dict_at_def dict_get_def get_default_def
          differs_def eq_int_def)
  have e2: "differs (get_default (dict_at ?st' 0) ''maxItems'' VNone) (length [VDict 1, VDict 1, VDict 1]) = False"
    by (simp add: fresh_engine_def tuple_pinned_def dict_at_def dict_get_def get_default_def
          differs_def eq_int_def)
  have e3: "length [VDict 1, VDict 1, VDict 1] = 3"
    by simp
  note general = tuple_warning_iff[OF h1 h2]
  have A: "\<exists>inner::addr list. length inner = length [VDict 1, VDict 1, VDict 1]"
    using general by (elim exE conjE) (rule exI)
  have B: "u_comments (type_at ?st' 4) =
       (if differs (get_default (dict_at ?st' 0) ''minItems'' VNone) (length [VDict 1, VDict 1, VDict 1])
           \<or> differs (get_default (dict_at ?st' 0) ''maxItems'' VNone) (length [VDict 1, VDict 1, VDict 1])
        then Some tuple_warning else None)"
    using general by (elim exE conjE)
  from B have "u_comments (type_at ?st' 4) = None"
    by (simp only: e1 e2 if_False simp_thms)
  moreover from A have "\<exists>inner::addr list. length inner = 3" by (simp only: e3)
  ultimately show ?thesis by blast
qed



section \<open>Enumeration members (C5)\<close>

text \<open>
  C5, as stated: an enumeration of k values is declared with k member lines, one per
  value in order, and distinct values never get the same member identifier. The second
  half fails: the synthesis replaces every character that is not a letter or a digit by a
  space and upper-cases the rest, so the distinct values \<^verbatim>\<open>"a b"\<close> and \<^verbatim>\<open>"a-b"\<close> both
  become the member \<^verbatim>\<open>A_B\<close>.
\<close>

theorem enum_members_collide:
  "VStr ''a b'' \<noteq> VStr ''a-b'' \<and>
   member_name no_table no_float (VStr ''a b'') = Inr ''A_B'' \<and>
   member_name no_table no_float (VStr ''a-b'') = Inr ''A_B''"
  by code_simp

text \<open>
  C5, amended: \<^verbatim>\<open>TypeEnum.definition\<close> returns exactly when the line of every value can
  be built, and then it is two empty lines, one comment line per description, the class
  line and exactly one member line per value, in the order of the values. Nothing keeps
  the identifiers of two members apart.
\<close>

theorem enum_definition_one_line_per_value:
  "TypeEnum_definition table fs name values descriptions = Inr lines \<longleftrightarrow>
     (\<exists>members. map (member_line table fs) values = map Inr members \<and>
        lines = [[], []] @ map (\<lambda>d. ''# '' @ d) descriptions
                  @ [''class '' @ name @ ''(Enum):''] @ members)"
proof (cases "member_lines table fs values")
  case (Inl err)
  then have "\<And>ms. map (member_line table fs) values \<noteq> map Inr ms"
    using member_lines_Inr[of table fs "values"] by simp
  with Inl show ?thesis by (simp add: TypeEnum_definition_def)
next
  case (Inr ms)
  then have "map (member_line table fs) values = map Inr ms"
    using member_lines_Inr[of table fs "values" ms] by simp
  with Inr show ?thesis
    by (auto simp: TypeEnum_definition_def inj_Inr[THEN inj_map_eq_map])
qed

text \<open>
  The declaration built for the values \<^verbatim>\<open>"red"\<close> and \<^verbatim>\<open>5\<close>: two member lines, in that
  order.
\<close>

theorem enum_definition_one_line_per_value_witness:
  "TypeEnum_definition no_table no_float ''Color'' [VStr ''red'', VInt 5] [''A colour'']
     = Inr ([[], []] @ map (\<lambda>d. ''# '' @ d) [''A colour''] @ [''class '' @ ''Color'' @ ''(Enum):'']
            @ [''    RED = '' @ [CHR 0x22] @ ''red'' @ [CHR 0x22], ''    NUM_5 = 5''])"
proof -
  have "map (member_line no_table no_float) [VStr ''red'', VInt 5]
          = map Inr [''    RED = '' @ [CHR 0x22] @ ''red'' @ [CHR 0x22], ''    NUM_5 = 5'']"
    by code_simp
  then show ?thesis
    unfolding enum_definition_one_line_per_value by blast
qed

section \<open>Determinism (C6)\<close>

text \<open>
  C6: two translations of the same schema document, each by a freshly built engine (no
  Type object yet, an empty cache, the same resolver), give the same Type IR. The source
  does not: the first translation writes into the document (the writes of C3), and a
  second engine that is given the same document reads what the first one wrote. On
  \<^verbatim>\<open>{"anyOf": [{"$ref": "#/definitions/t"},
              {"if": {"properties": {"a": ...}}, "then": {"$ref": "#/definitions/t"}}],
    "definitions": {"t": {"type": "object", "properties": {"b": ...}}}}\<close>
  the first translation returns a union whose first member is the \<^verbatim>\<open>TypedDict\<close>
  \<^verbatim>\<open>_BaseAnyof0\<close> with the one field \<^verbatim>\<open>b\<close>; it translates the definition before it comes to
  the conditional, where it adds the property \<^verbatim>\<open>a\<close> to the properties of the definition
  and the keys of the definition to the \<^verbatim>\<open>then\<close>: the first eleven mappings of its final
  state, the document, are \<^verbatim>\<open>ref_and_conditional_after\<close>. The second translation starts
  with a fresh engine over the mappings that the first one left, and returns a union
  whose first member is the \<^verbatim>\<open>TypedDict\<close> \<^verbatim>\<open>_BaseAnyof0\<close> with the two fields \<^verbatim>\<open>b\<close> and \<^verbatim>\<open>a\<close>, in
  an IR of nine Types instead of eight.
\<close>

theorem second_translation_differs:
  "fst (API_get_type 4 t_resolver (VDict 0) (VStr ''Base'') True (fresh_engine ref_and_conditional))
     = Inr 7
   \<and> types (snd (API_get_type 4 t_resolver (VDict 0) (VStr ''Base'') True (fresh_engine ref_and_conditional)))
     = [\<lparr>instance_of = BuiltinType ''str'', u_comments = Some []\<rparr>,
        \<lparr>instance_of = TypedDictType ''_BaseAnyof0'' [(''b'', 0)] [],
           u_comments = Some [''WARNING: The required are not correctly taken in account,'',
                              ''See: https://www.python.org/dev/peps/pep-0655/'']\<rparr>,
        \<lparr>instance_of = NativeType ''Union'' ''typing'', u_comments = None\<rparr>,
        \<lparr>instance_of = BuiltinType ''None'',
           u_comments = Some [''WARNING: we get an scheam without any type'']\<rparr>,
        \<lparr>instance_of = TypeAlias ''_BaseAnyof1Else'' 3 [''WARNING: we get an scheam without any type''],
           u_comments = None\<rparr>,
        \<lparr>instance_of = CombinedType 2 [1, 4], u_comments = Some []\<rparr>,
        \<lparr>instance_of = NativeType ''Union'' ''typing'', u_comments = None\<rparr>,
        \<lparr>instance_of = CombinedType 6 [1, 5], u_comments = Some []\<rparr>]
   \<and> take 11 (dicts (snd (API_get_type 4 t_resolver (VDict 0) (VStr ''Base'') True
                             (fresh_engine ref_and_conditional))))
     = ref_and_conditional_after
   \<and> ref_and_conditional_after \<noteq> ref_and_conditional
   \<and> fst (API_get_type 4 t_resolver (VDict 0) (VStr ''Base'') True
            (fresh_engine (dicts (snd (API_get_type 4 t_resolver (VDict 0) (VStr ''Base'') True
                                         (fresh_engine ref_and_conditional))))))
     = Inr 8
   \<and> types (snd (API_get_type 4 t_resolver (VDict 0) (VStr ''Base'') True
                   (fresh_engine (dicts (snd (API_get_type 4 t_resolver (VDict 0) (VStr ''Base'') True
                                                (fresh_engine ref_and_conditional)))))))
     = [\<lparr>instance_of = BuiltinType ''str'', u_comments = Some []\<rparr>,
        \<lparr>instance_of = BuiltinType ''int'', u_comments = Some []\<rparr>,
        \<lparr>instance_of = TypedDictType ''_BaseAnyof0'' [(''b'', 0), (''a'', 1)] [],
           u_comments = Some [''WARNING: The required are not correctly taken in account,'',
                              ''See: https://www.python.org/dev/peps/pep-0655/'']\<rparr>,
        \<lparr>instance_of = NativeType ''Union'' ''typing'', u_comments = None\<rparr>,
        \<lparr>instance_of = BuiltinType ''None'',
           u_comments = Some [''WARNING: we get an scheam without any type'']\<rparr>,
        \<lparr>instance_of = TypeAlias ''_BaseAnyof1Else'' 4 [''WARNING: we get an scheam without any type''],
           u_comments = None\<rparr>,
        \<lparr>instance_of = CombinedType 3 [2, 5], u_comments = Some []\<rparr>,
        \<lparr>instance_of = NativeType ''Union'' ''typing'', u_comments = None\<rparr>,
        \<lparr>instance_of = CombinedType 7 [2, 6], u_comments = Some []\<rparr>]"
proof -
  let ?first = "API_get_type 4 t_resolver (VDict 0) (VStr ''Base'') True (fresh_engine ref_and_conditional)"
  have left: "dicts (snd ?first) = ref_and_conditional_after @
           [[(''type'', VStr ''object''), (''properties'', VDict 7)], [],
            [(''$ref'', VStr ''#/definitions/t''), (''type'', VStr ''object''), (''properties'', VDict 7)],
            [], [], [], [], [],
            [(''type'', VStr ''object''), (''properties'', VDict 7)]]"
    unfolding ref_and_conditional_first_run by simp
  have document: "take 11 (dicts (snd ?first)) = ref_and_conditional_after"
    unfolding left by (simp add: ref_and_conditional_after_def)
  have changed: "ref_and_conditional_after \<noteq> ref_and_conditional"
    by (simp add: ref_and_conditional_after_def ref_and_conditional_def)
  have second: "API_get_type 4 t_resolver (VDict 0) (VStr ''Base'') True (fresh_engine (dicts (snd ?first)))
                 = API_get_type 4 t_resolver (VDict 0) (VStr ''Base'') True
     (fresh_engine (ref_and_conditional_after @
           [[(''type'', VStr ''object''), (''properties'', VDict 7)], [],
            [(''$ref'', VStr ''#/definitions/t''), (''type'', VStr ''object''), (''properties'', VDict 7)],
            [], [], [], [], [],
            [(''type'', VStr ''object''), (''properties'', VDict 7)]]))"
    unfolding left by (rule refl)
  show ?thesis
    unfolding second ref_and_conditional_second_run document
    unfolding ref_and_conditional_first_run
    using changed by simp
qed


section \<open>Unsupported constructs (C7)\<close>

text \<open>
  C7, as stated: a hard failure in exactly two cases, an array schema whose \<^verbatim>\<open>items\<close> is
  \<^verbatim>\<open>false\<close> and a schema whose type names no handler. Three runs of the source show that the
  two cases are neither always hard failures nor the only ones. The keys \<^verbatim>\<open>const\<close> and \<^verbatim>\<open>enum\<close>
  are dispatched before the type: \<^verbatim>\<open>{"type": "array", "items": false, "const": 1}\<close> is
  translated to the literal 1 and \<^verbatim>\<open>{"type": "tuple", "enum": ["a"]}\<close> to an enumeration,
  without a failure. And the conditional
  \<^verbatim>\<open>{"if": {"properties": {"a": ...}}, "then": {"required": ["a"]}}\<close>, which holds neither an
  array nor a type, fails an assertion of the \<^verbatim>\<open>if\<close> branch (its \<^verbatim>\<open>then\<close> has no properties)
  and the translation is aborted.
\<close>

theorem unsupported_neither_always_nor_only:
  "API_get_type 1 no_resolver (VDict 0) (VStr ''Base'') True (fresh_engine unsupported_not_reached)
     = (Inr 0, \<lparr>dicts = unsupported_not_reached,
                types = [\<lparr>instance_of = LiteralType (VInt 1), u_comments = Some []\<rparr>],
                scopes_stack = [VStr []], ref_type = []\<rparr>)
   \<and> API_get_type 1 no_resolver (VDict 1) (VStr ''Base'') True (fresh_engine unsupported_not_reached)
     = (Inr 0, \<lparr>dicts = unsupported_not_reached,
                types = [\<lparr>instance_of = TypeEnum ''_Base'' [VStr ''a''] [], u_comments = Some []\<rparr>],
                scopes_stack = [VStr []], ref_type = []\<rparr>)
   \<and> fst (API_get_type 1 no_resolver (VDict 0) (VStr ''Base'') True (fresh_engine then_without_properties))
     = Inl AssertionError
   \<and> types (snd (API_get_type 1 no_resolver (VDict 0) (VStr ''Base'') True
                   (fresh_engine then_without_properties)))
     = []"
  unfolding const_before_array_run enum_before_tuple_run then_without_properties_run
  by simp

text \<open>
  C7, amended: the two unsupported constructs are hard failures, never a commented
  placeholder, in a schema that reaches the dispatch on its single type string; and they
  are not the only hard failures.
  (1) The array handler raises \<^verbatim>\<open>NotImplementedError\<close> whenever \<^verbatim>\<open>items\<close> is \<^verbatim>\<open>false\<close>, and
  has changed nothing. (2) \<^verbatim>\<open>get_type_handler\<close> raises for every type string that names
  no attribute of the engine, which is where it looks for the handler:
  \<^verbatim>\<open>NotImplementedError\<close>, or \<^verbatim>\<open>AttributeError\<close> when the string begins with an underscore.
  (3) Both failures propagate out of \<^verbatim>\<open>get_type\<close>: for a schema that reaches the dispatch
  on its single type string (none of the keys \<^verbatim>\<open>if\<close>, \<^verbatim>\<open>$ref\<close>, \<^verbatim>\<open>const\<close> and \<^verbatim>\<open>enum\<close>, which
  are dispatched before it), \<^verbatim>\<open>get_type\<close> raises the same exception and the state is as
  before the call, so no placeholder Type has been created. (4) Another hard failure: the
  conditional whose \<^verbatim>\<open>then\<close> has no properties ends in \<^verbatim>\<open>AssertionError\<close>, and no Type has
  been created.
\<close>

theorem unsupported_constructs_raise:
  "(dict_get (dict_at st a) ''items'' = Some (VBool False) \<longrightarrow>
      APIv4_array gt e a proposed_name st = (Inl NotImplementedError, st))
   \<and> (map_of attributes s = None \<longrightarrow>
      API_get_type_handler (VStr s)
        = Inl (if take 1 s = ''_'' then AttributeError else NotImplementedError))
   \<and> (\<not> dict_contains (dict_at st a) ''if'' \<and> \<not> dict_contains (dict_at st a) ''$ref''
      \<and> \<not> dict_contains (dict_at st a) ''const'' \<and> \<not> dict_contains (dict_at st a) ''enum'' \<longrightarrow>
        (dict_get (dict_at st a) ''type'' = Some (VStr ''array'') \<and>
         dict_get (dict_at st a) ''items'' = Some (VBool False) \<longrightarrow>
           API_get_type (Suc depth) e (VDict a) proposed_name auto_alias st
             = (Inl NotImplementedError, st))
      \<and> (dict_get (dict_at st a) ''type'' = Some (VStr s) \<and> map_of attributes s = None \<longrightarrow>
           API_get_type (Suc depth) e (VDict a) proposed_name auto_alias st
             = (Inl (if take 1 s = ''_'' then AttributeError else NotImplementedError), st)))
   \<and> fst (API_get_type 1 no_resolver (VDict 0) (VStr ''Base'') True (fresh_engine then_without_properties))
       = Inl AssertionError
   \<and> types (snd (API_get_type 1 no_resolver (VDict 0) (VStr ''Base'') True
                     (fresh_engine then_without_properties)))
       = []"
proof (intro conjI impI)
  assume "dict_get (dict_at st a) ''items'' = Some (VBool False)"
  then show "APIv4_array gt e a proposed_name st = (Inl NotImplementedError, st)"
    by (rule array_items_false)
next
  assume "map_of attributes s = None"
  then show "API_get_type_handler (VStr s)
               = Inl (if take 1 s = ''_'' then AttributeError else NotImplementedError)"
    by (rule handler_unknown)
next
  assume reach: "\<not> dict_contains (dict_at st a) ''if'' \<and> \<not> dict_contains (dict_at st a) ''$ref''
      \<and> \<not> dict_contains (dict_at st a) ''const'' \<and> \<not> dict_contains (dict_at st a) ''enum''"
    and h: "dict_get (dict_at st a) ''type'' = Some (VStr ''array'') \<and>
            dict_get (dict_at st a) ''items'' = Some (VBool False)"
  have "API__get_type_internal (API_get_type depth e) e a proposed_name st
        = (Inl NotImplementedError, st)"
    using reach h
    by (simp add: internal_single_type get_type_no_enum call_handler_def array_items_false)
  then show "API_get_type (Suc depth) e (VDict a) proposed_name auto_alias st
              = (Inl NotImplementedError, st)"
    by (simp add: get_type_call_def and_then_Inl)
next
  assume reach: "\<not> dict_contains (dict_at st a) ''if'' \<and> \<not> dict_contains (dict_at st a) ''$ref''
      \<and> \<not> dict_contains (dict_at st a) ''const'' \<and> \<not> dict_contains (dict_at st a) ''enum''"
    and h: "dict_get (dict_at st a) ''type'' = Some (VStr s) \<and> map_of attributes s = None"
  have "API__get_type_internal (API_get_type depth e) e a proposed_name st
        = (Inl (if take 1 s = ''_'' then AttributeError else NotImplementedError), st)"
    using reach h
    by (simp add: internal_single_type get_type_no_enum handler_unknown raise_def)
  then show "API_get_type (Suc depth) e (VDict a) proposed_name auto_alias st
              = (Inl (if take 1 s = ''_'' then AttributeError else NotImplementedError), st)"
    by (simp add: get_type_call_def and_then_Inl)
next
  show "fst (API_get_type 1 no_resolver (VDict 0) (VStr ''Base'') True (fresh_engine then_without_properties))
       = Inl AssertionError"
    unfolding then_without_properties_run by simp
next
  show "types (snd (API_get_type 1 no_resolver (VDict 0) (VStr ''Base'') True
                     (fresh_engine then_without_properties)))
       = []"
    unfolding then_without_properties_run by simp
qed

text \<open>The two cases at \<^verbatim>\<open>{"type": "array", "items": false}\<close> and \<^verbatim>\<open>{"type": "tuple"}\<close>.\<close>

theorem unsupported_constructs_raise_witness:
  "APIv4_array (API_get_type 0 no_resolver) no_resolver 0 (VStr ''Base'') (fresh_engine unsupported)
     = (Inl NotImplementedError, fresh_engine unsupported)
   \<and> API_get_type_handler (VStr ''tuple'') = Inl NotImplementedError
   \<and> API_get_type 1 no_resolver (VDict 0) (VStr ''Base'') True (fresh_engine unsupported)
     = (Inl NotImplementedError, fresh_engine unsupported)
   \<and> API_get_type 1 no_resolver (VDict 1) (VStr ''Base'') True (fresh_engine unsupported)
     = (Inl NotImplementedError, fresh_engine unsupported)"
  using unsupported_constructs_raise[of "fresh_engine unsupported" 0 "API_get_type 0 no_resolver"
           no_resolver "VStr ''Base''" "''tuple''" 0 True]
        unsupported_constructs_raise[of "fresh_engine unsupported" 1 "API_get_type 0 no_resolver"
           no_resolver "VStr ''Base''" "''tuple''" 0 True]
  by (simp add: fresh_engine_def unsupported_def dict_at_def dict_contains_def dict_get_def attributes_def)


section \<open>A list of types (C8)\<close>

text \<open>
  C8: for a schema whose \<^verbatim>\<open>type\<close> is a list and that reaches the dispatch on the type
  (none of the keys \<^verbatim>\<open>if\<close>, \<^verbatim>\<open>$ref\<close> and \<^verbatim>\<open>const\<close>), every return of
  \<^verbatim>\<open>_get_type_internal\<close> has this shape. A copy of the schema without \<^verbatim>\<open>title\<close> is made at
  a new address (after the scope of a non-empty \<^verbatim>\<open>$id\<close> has been pushed); the loop calls
  \<^verbatim>\<open>_get_type\<close> on that copy once per element of the list, in order, with the name
  \<^verbatim>\<open>f"{proposed_name} {primitive_type}"\<close>; and the result is a new \<^verbatim>\<open>CombinedType\<close> over a
  new \<^verbatim>\<open>NativeType("Union")\<close> whose arguments are the results of the loop, one per element.
  In particular \<^verbatim>\<open>{"type": ["string", "integer"]}\<close> yields the union of the builtins
  \<^verbatim>\<open>str\<close> and \<^verbatim>\<open>int\<close>, in that order.
\<close>

theorem type_list_is_union:
  assumes "\<not> dict_contains (dict_at st a) ''if''"
    and "\<not> dict_contains (dict_at st a) ''$ref''"
    and "\<not> dict_contains (dict_at st a) ''const''"
    and "dict_get (dict_at st a) ''type'' = Some (VList ts)"
    and "API__get_type_internal gt e a proposed_name st = (Inr t, st')"
  shows "(\<exists>inner st2.
           for_each
             (\<lambda>primitive_type.
                and_then (lift (format2 (float_str e) (get_default (dict_at st a) ''title'' proposed_name)
                                  '' '' primitive_type))
                  (API__get_type gt e (length (dicts st)) primitive_type))
             ts ((if truthy st (get_default (dict_at st a) ''$id'' (VStr []))
                  then st\<lparr>scopes_stack := scopes_stack st @ [get_default (dict_at st a) ''$id'' (VStr [])]\<rparr>
                  else st)\<lparr>dicts := dicts st @ [dict_del (dict_at st a) ''title'']\<rparr>) = (Inr inner, st2)
         \<and> length inner = length ts
         \<and> t = Suc (length (types st2))
         \<and> st' = st2\<lparr>types := types st2 @
                      [\<lparr>instance_of = NativeType ''Union'' ''typing'', u_comments = None\<rparr>,
                       \<lparr>instance_of = CombinedType (length (types st2)) inner, u_comments = None\<rparr>]\<rparr>)
       \<and> API_get_type 2 no_resolver (VDict 0) (VStr ''Base'') True (fresh_engine string_or_integer)
           = (Inr 3, \<lparr>dicts = string_or_integer @ string_or_integer,
                      types = [\<lparr>instance_of = BuiltinType ''str'', u_comments = None\<rparr>,
                               \<lparr>instance_of = BuiltinType ''int'', u_comments = None\<rparr>,
                               \<lparr>instance_of = NativeType ''Union'' ''typing'', u_comments = None\<rparr>,
                               \<lparr>instance_of = CombinedType 2 [0, 1], u_comments = Some []\<rparr>],
                      scopes_stack = [VStr []], ref_type = []\<rparr>)"
proof -
  define st0 where "st0 = (if truthy st (get_default (dict_at st a) ''$id'' (VStr []))
            then st\<lparr>scopes_stack := scopes_stack st @ [get_default (dict_at st a) ''$id'' (VStr [])]\<rparr>
            else st)"
  define name where "name = get_default (dict_at st a) ''title'' proposed_name"
  define body where "body = (\<lambda>primitive_type.
                and_then (lift (format2 (float_str e) name '' '' primitive_type))
                  (API__get_type gt e (length (dicts st)) primitive_type))"
  have d0: "dict_at st0 a = dict_at st a" "dicts st0 = dicts st"
    by (simp_all add: st0_def dict_at_def)
  have copy: "(if dict_contains (dict_at st a) ''title'' then dict_del (dict_at st0 a) ''title'' else dict_at st0 a)
                = dict_del (dict_at st a) ''title''"
    by (simp add: dict_del_absent d0)
  have "type_list gt e a ts name st0 = (Inr t, st')"
    using assms internal_type_list[OF assms(1-4), of gt e proposed_name]
    by (simp add: st0_def name_def)
  then have run: "and_then (for_each body ts) (\<lambda>inner_types.
       and_then (new_type (NativeType ''Union'' ''typing'')) (\<lambda>union.
         new_type (CombinedType union inner_types)))
        (st0\<lparr>dicts := dicts st @ [dict_del (dict_at st a) ''title'']\<rparr>) = (Inr t, st')"
    by (simp add: type_list_def d0 copy body_def name_def)
  then obtain inner st2 where
      loop: "for_each body ts (st0\<lparr>dicts := dicts st @ [dict_del (dict_at st a) ''title'']\<rparr>) = (Inr inner, st2)"
      and rest: "and_then (new_type (NativeType ''Union'' ''typing'')) (\<lambda>union.
         new_type (CombinedType union inner)) st2 = (Inr t, st')"
    by (auto elim: and_then_InrE)
  from rest have "t = Suc (length (types st2))"
     and "st' = st2\<lparr>types := types st2 @
                      [\<lparr>instance_of = NativeType ''Union'' ''typing'', u_comments = None\<rparr>,
                       \<lparr>instance_of = CombinedType (length (types st2)) inner, u_comments = None\<rparr>]\<rparr>"
    by (simp_all add: new_type_def)
  with loop for_each_length[OF loop] have general: "\<exists>inner st2.
           for_each
             (\<lambda>primitive_type.
                and_then (lift (format2 (float_str e) (get_default (dict_at st a) ''title'' proposed_name)
                                  '' '' primitive_type))
                  (API__get_type gt e (length (dicts st)) primitive_type))
             ts ((if truthy st (get_default (dict_at st a) ''$id'' (VStr []))
                  then st\<lparr>scopes_stack := scopes_stack st @ [get_default (dict_at st a) ''$id'' (VStr [])]\<rparr>
                  else st)\<lparr>dicts := dicts st @ [dict_del (dict_at st a) ''title'']\<rparr>) = (Inr inner, st2)
         \<and> length inner = length ts
         \<and> t = Suc (length (types st2))
         \<and> st' = st2\<lparr>types := types st2 @
                      [\<lparr>instance_of = NativeType ''Union'' ''typing'', u_comments = None\<rparr>,
                       \<lparr>instance_of = CombinedType (length (types st2)) inner, u_comments = None\<rparr>]\<rparr>"
    unfolding body_def name_def st0_def by blast
  have example: "API_get_type 2 no_resolver (VDict 0) (VStr ''Base'') True (fresh_engine string_or_integer)
           = (Inr 3, \<lparr>dicts = string_or_integer @ string_or_integer,
                      types = [\<lparr>instance_of = BuiltinType ''str'', u_comments = None\<rparr>,
                               \<lparr>instance_of = BuiltinType ''int'', u_comments = None\<rparr>,
                               \<lparr>instance_of = NativeType ''Union'' ''typing'', u_comments = None\<rparr>,
                               \<lparr>instance_of = CombinedType 2 [0, 1], u_comments = Some []\<rparr>],
                      scopes_stack = [VStr []], ref_type = []\<rparr>)"
    by code_simp
  from general example show ?thesis by (rule conjI)
qed

text \<open>
  The general part at \<^verbatim>\<open>{"type": ["string", "integer"]}\<close>: the copy is the mapping at
  address 1, the loop returns the builtins \<^verbatim>\<open>str\<close> and \<^verbatim>\<open>int\<close> at addresses 0 and 1, and
  the union over them is the Type at address 3.
\<close>

theorem type_list_is_union_witness:
  "\<exists>inner st2.
     for_each
       (\<lambda>primitive_type.
          and_then (lift (format2 (float_str no_resolver) (VStr ''Base'') '' '' primitive_type))
            (API__get_type (API_get_type 1 no_resolver) no_resolver 1 primitive_type))
       [VStr ''string'', VStr ''integer'']
       ((fresh_engine string_or_integer)\<lparr>dicts := string_or_integer @ string_or_integer\<rparr>) = (Inr inner, st2)
     \<and> length inner = 2
     \<and> (3::nat) = Suc (length (types st2))"
proof -
  let ?st = "fresh_engine string_or_integer"
  let ?st' = "\<lparr>dicts = string_or_integer @ string_or_integer,
                      types = [\<lparr>instance_of = BuiltinType ''str'', u_comments = None\<rparr>,
                               \<lparr>instance_of = BuiltinType ''int'', u_comments = None\<rparr>,
                               \<lparr>instance_of = NativeType ''Union'' ''typing'', u_comments = None\<rparr>,
                               \<lparr>instance_of = CombinedType 2 [0, 1], u_comments = None\<rparr>],
                      scopes_stack = [VStr []], ref_type = []\<rparr>"
  have h1: "\<not> dict_contains (dict_at ?st 0) ''if''"
    and h2: "\<not> dict_contains (dict_at ?st 0) ''$ref''"
    and h3: "\<not> dict_contains (dict_at ?st 0) ''const''"
    and h4: "dict_get (dict_at ?st 0) ''type'' = Some (VList [VStr ''string'', VStr ''integer''])"
    by (simp_all add: fresh_engine_def string_or_integer_def dict_at_def dict_contains_def dict_get_def)
  have h5: "API__get_type_internal (API_get_type 1 no_resolver) no_resolver 0 (VStr ''Base'') ?st = (Inr 3, ?st')"
    by code_simp
  have e1: "get_default (dict_at ?st 0) ''title'' (VStr ''Base'') = VStr ''Base''"
    and e2: "truthy ?st (get_default (dict_at ?st 0) ''$id'' (VStr [])) = False"
    and e3: "dicts ?st @ [dict_del (dict_at ?st 0) ''title''] = string_or_integer @ string_or_integer"
    and e4: "length (dicts ?st) = 1"
    and e5: "length [VStr ''string'', VStr ''integer''] = 2"
    by (simp_all add: fresh_engine_def string_or_integer_def dict_at_def dict_get_def get_default_def
          truthy_def dict_del_def)
  from type_list_is_union[OF h1 h2 h3 h4 h5, THEN conjunct1]
  show ?thesis
    by (simp only: e1 e2 e3 e4 e5 if_False) blast
qed


section \<open>An enum beside a type string (C9)\<close>

text \<open>
  C9: for every schema that carries an \<^verbatim>\<open>enum\<close> key, \<^verbatim>\<open>_get_type\<close> is the call of the enum
  handler, whatever the type string it is given: no primitive handler runs. So for a
  schema with a single type string and an \<^verbatim>\<open>enum\<close> key that reaches the dispatch on the
  type (none of the keys \<^verbatim>\<open>if\<close>, \<^verbatim>\<open>$ref\<close> and \<^verbatim>\<open>const\<close>), \<^verbatim>\<open>_get_type_internal\<close> is the call
  of the enum handler too. When the enum handler returns, what it has built is one
  \<^verbatim>\<open>TypeEnum\<close> with the synthesized name and exactly the values listed under \<^verbatim>\<open>enum\<close>,
  whether or not they agree with the declared type.
\<close>

theorem enum_wins_over_type:
  assumes "dict_contains (dict_at st a) ''enum''"
  shows "API__get_type gt e a schema_type proposed_name st
           = APIv4_enum e a (get_default (dict_at st a) ''title'' proposed_name) st
       \<and> (\<not> dict_contains (dict_at st a) ''if'' \<and> \<not> dict_contains (dict_at st a) ''$ref''
          \<and> \<not> dict_contains (dict_at st a) ''const''
          \<and> dict_get (dict_at st a) ''type'' = Some (VStr s) \<longrightarrow>
            API__get_type_internal gt e a proposed_name st
              = APIv4_enum e a (get_default (dict_at st a) ''title'' proposed_name) st)
       \<and> (\<forall>name t st'. APIv4_enum e a name st = (Inr t, st') \<longrightarrow>
            (\<exists>ident vs descriptions.
               dict_get (dict_at st a) ''enum'' = Some (VList vs)
             \<and> get_name (unidecode_table e) (Some (dict_at st a)) name False = Inr ident
             \<and> t = length (types st)
             \<and> st' = st\<lparr>types := types st @ [\<lparr>instance_of = TypeEnum ident vs descriptions, u_comments = None\<rparr>]\<rparr>))"
proof (intro conjI allI impI)
  show "API__get_type gt e a schema_type proposed_name st
           = APIv4_enum e a (get_default (dict_at st a) ''title'' proposed_name) st"
    using assms by (rule get_type_enum)
next
  assume "\<not> dict_contains (dict_at st a) ''if'' \<and> \<not> dict_contains (dict_at st a) ''$ref''
          \<and> \<not> dict_contains (dict_at st a) ''const''
          \<and> dict_get (dict_at st a) ''type'' = Some (VStr s)"
  then show "API__get_type_internal gt e a proposed_name st
           = APIv4_enum e a (get_default (dict_at st a) ''title'' proposed_name) st"
    using assms by (simp add: internal_single_type get_type_enum)
next
  fix name t st'
  assume "APIv4_enum e a name st = (Inr t, st')"
  then show "\<exists>ident vs descriptions.
               dict_get (dict_at st a) ''enum'' = Some (VList vs)
             \<and> get_name (unidecode_table e) (Some (dict_at st a)) name False = Inr ident
             \<and> t = length (types st)
             \<and> st' = st\<lparr>types := types st @ [\<lparr>instance_of = TypeEnum ident vs descriptions, u_comments = None\<rparr>]\<rparr>"
    unfolding APIv4_enum_def
    by (cases "get_name (unidecode_table e) (Some (dict_at st a)) name False";
        cases "dict_get (dict_at st a) ''enum''";
        cases "get_description (float_str e) (dict_at st a)";
        cases "the (dict_get (dict_at st a) ''enum'')")
       (auto simp: raise_def new_type_def split: if_splits)
qed

text \<open>\<^verbatim>\<open>{"type": "integer", "enum": ["a", "b"]}\<close>: the strings win over \<^verbatim>\<open>integer\<close>.\<close>

theorem enum_wins_over_type_witness:
  "API__get_type (API_get_type 0 no_resolver) no_resolver 0 (VStr ''integer'') (VStr ''Base'')
       (fresh_engine integer_enum)
     = (Inr 0, (fresh_engine integer_enum)
                 \<lparr>types := [\<lparr>instance_of = TypeEnum ''_Base'' [VStr ''a'', VStr ''b''] [], u_comments = None\<rparr>]\<rparr>)
   \<and> API__get_type_internal (API_get_type 0 no_resolver) no_resolver 0 (VStr ''Base'')
       (fresh_engine integer_enum)
     = (Inr 0, (fresh_engine integer_enum)
                 \<lparr>types := [\<lparr>instance_of = TypeEnum ''_Base'' [VStr ''a'', VStr ''b''] [], u_comments = None\<rparr>]\<rparr>)"
proof -
  have "APIv4_enum no_resolver 0 (VStr ''Base'') (fresh_engine integer_enum) = (Inr 0, (fresh_engine integer_enum)
                 \<lparr>types := [\<lparr>instance_of = TypeEnum ''_Base'' [VStr ''a'', VStr ''b''] [], u_comments = None\<rparr>]\<rparr>)"
    by code_simp
  moreover have "dict_contains (dict_at (fresh_engine integer_enum) 0) ''enum''"
    by (simp add: fresh_engine_def integer_enum_def dict_at_def dict_contains_def)
  ultimately show ?thesis
    using enum_wins_over_type[of "fresh_engine integer_enum" 0 "API_get_type 0 no_resolver" no_resolver
             "VStr ''integer''" "VStr ''Base''" "''integer''"]
    by (simp add: fresh_engine_def integer_enum_def dict_at_def dict_contains_def dict_get_def get_default_def)
qed


section \<open>Partiality of name synthesis (C10)\<close>

text \<open>
  C10, as stated: a title with no ASCII letter or digit after transliteration, for
  example a title made only of punctuation, makes \<^verbatim>\<open>get_name\<close> index an empty string and
  fail with \<^verbatim>\<open>IndexError\<close>. The example does not fail: each punctuation character has
  been replaced by a space before the first character is read, the string is not empty,
  and the call returns the empty identifier.
\<close>

theorem punctuation_title_returns:
  "get_name no_table (Some [(''title'', VStr ''!!!'')]) VNone False = Inr []"
  by code_simp

text \<open>
  C10, amended: \<^verbatim>\<open>get_name\<close> is partial. It fails with \<^verbatim>\<open>IndexError\<close> exactly when the
  base name is a string whose transliteration is the empty string (the empty title, for
  one), and with \<^verbatim>\<open>AssertionError\<close> exactly when the base name is \<^verbatim>\<open>None\<close> (no title and
  no proposed name).
\<close>

theorem get_name_partial:
  "(get_name table schema proposed_name up = Inl IndexError \<longleftrightarrow>
      (\<exists>s. base_name schema proposed_name = VStr s \<and> unidecode table s = []))
   \<and> (get_name table schema proposed_name up = Inl AssertionError \<longleftrightarrow>
      base_name schema proposed_name = VNone)"
  by (cases "base_name schema proposed_name") (auto simp: get_name_def Let_def)

text \<open>The two failures at concrete schemas: the empty title, and no name at all.\<close>

theorem get_name_partial_witness:
  "get_name no_table (Some [(''title'', VStr [])]) VNone False = Inl IndexError
   \<and> get_name no_table (Some []) VNone False = Inl AssertionError
   \<and> get_name no_table None VNone True = Inl AssertionError"
  using get_name_partial[of no_table "Some [(''title'', VStr [])]" VNone False]
        get_name_partial[of no_table "Some []" VNone False]
        get_name_partial[of no_table None VNone True]
  by (simp add: base_name_def has_title_def dict_contains_def dict_get_def unidecode_def)

end
